theory Spec2Isabelle
  imports Complex_Main
begin

section \<open>Python strings\<close>

text \<open>
  A Python \<open>str\<close> is modelled as a \<open>string\<close>, a list of 8-bit characters read as the
  code points U+0000 .. U+00FF. On these code points \<open>str.isspace\<close>, \<open>str.lower\<close>,
  \<open>str.strip\<close>, \<open>str.replace\<close> and \<open>str.endswith\<close> are the functions below.
\<close>

definition dquote :: char where
  "dquote = CHR 0x22"

definition squote :: char where
  "squote = CHR 0x27"

definition newline :: char where
  "newline = CHR 0x0A"

text \<open>\<open>c.isspace()\<close>: TAB, LF, VT, FF, CR, FS, GS, RS, US, SPACE, NEL and NBSP.\<close>

definition py_isspace :: "char \<Rightarrow> bool" where
  "py_isspace c = (of_char c \<in> {9, 10, 11, 12, 13, 28, 29, 30, 31, 32, 133, 160 :: nat})"

text \<open>Upper-case code points below U+0100: A-Z, and U+00C0 .. U+00DE except U+00D7.\<close>

definition py_isupper :: "char \<Rightarrow> bool" where
  "py_isupper c = (let n = (of_char c :: nat) in
     (65 \<le> n \<and> n \<le> 90) \<or> (192 \<le> n \<and> n \<le> 222 \<and> n \<noteq> 215))"

definition lower_char :: "char \<Rightarrow> char" where
  "lower_char c = (if py_isupper c then char_of (of_char c + (32 :: nat)) else c)"

text \<open>\<open>s.lower()\<close>\<close>

definition py_lower :: "string \<Rightarrow> string" where
  "py_lower s = map lower_char s"

text \<open>\<open>s.strip()\<close>: leading and trailing whitespace removed.\<close>

definition py_strip :: "string \<Rightarrow> string" where
  "py_strip s = rev (dropWhile py_isspace (rev (dropWhile py_isspace s)))"

text \<open>\<open>s.replace(c, new)\<close> for a one-character \<open>c\<close>.\<close>

definition py_replace :: "char \<Rightarrow> string \<Rightarrow> string \<Rightarrow> string" where
  "py_replace c new s = concat (map (\<lambda>x. if x = c then new else [x]) s)"

text \<open>\<open>s.endswith(suf)\<close> and \<open>s.endswith((suf1, suf2, ...))\<close>\<close>

definition py_endswith :: "string \<Rightarrow> string \<Rightarrow> bool" where
  "py_endswith s suf = (length suf \<le> length s \<and> drop (length s - length suf) s = suf)"

definition py_endswith_any :: "string \<Rightarrow> string list \<Rightarrow> bool" where
  "py_endswith_any s sufs = list_ex (py_endswith s) sufs"

section \<open>Exceptions, effects and computations\<close>

text \<open>
  Every exception of the model is a subclass of \<open>Exception\<close>, the class that the
  handlers of the source catch. \<open>IndexError\<close>, \<open>KeyError\<close> and \<open>TypeError\<close> are raised
  by the program's own subscripts and by \<open>random.choice\<close>; \<open>External\<close> is an exception
  raised inside a library call (transport, authentication, decoding, file system), with
  its message.
\<close>

datatype pyexn = IndexError | KeyError | TypeError | External string

text \<open>A decoded JSON value; an object keeps its members in the order of the text.\<close>

datatype json =
    JNull
  | JBool bool
  | JInt int
  | JFloat real
  | JStr string
  | JList "json list"
  | JObj "(string \<times> json) list"

text \<open>
  The request of \<open>client.chat.completions.create\<close>. A message is a pair of role and
  content. \<open>stop=None\<close> is the same in every call and is left out.
\<close>

record request =
  model :: string
  messages :: "(string \<times> string) list"
  temperature :: real
  max_completion_tokens :: nat
  top_p :: int
  stream :: bool

text \<open>What the program prints, one constructor for each \<open>print\<close> of the two files.\<close>

datatype printed =
    Meme_Generated json
  | Error_Imgflip
  | Error_Template
  | Meme_Topic string
  | Meme_Text string
  | Using_Template json json
  | Reddit_URL string
  | Failed_Reddit
  | Error_Image
  | Generated_OK

text \<open>
  The effects of a run, in the order in which they happen: calls of the completion API,
  HTTP requests, the read of the feed, drawing, saving and showing the image, printing,
  and logging an error (the message's prefix and the exception).
\<close>

datatype event =
    Completion request
  | HttpGet string
  | HttpPost string "(string \<times> json) list"
  | FeedHot string nat
  | DrawText "int \<times> int" string string
  | Save string
  | Show
  | Print printed
  | LogError string pyexn

text \<open>
  A computation yields the events it performed and then either the exception it raised
  or its value.
\<close>

type_synonym 'a comp = "event list \<times> (pyexn + 'a)"

definition ret :: "'a \<Rightarrow> 'a comp" where
  "ret x = ([], Inr x)"

definition raise :: "pyexn \<Rightarrow> 'a comp" where
  "raise e = ([], Inl e)"

definition emit :: "event \<Rightarrow> unit comp" where
  "emit ev = ([ev], Inr ())"

text \<open>Sequencing: an exception of the first part skips the second.\<close>

definition bind :: "'a comp \<Rightarrow> ('a \<Rightarrow> 'b comp) \<Rightarrow> 'b comp" where
  "bind m f =
     (case snd m of
        Inl e \<Rightarrow> (fst m, Inl e)
      | Inr x \<Rightarrow> (fst m @ fst (f x), snd (f x)))"

text \<open>\<open>try: m  except Exception as e: h(e)\<close>\<close>

definition try_except :: "'a comp \<Rightarrow> (pyexn \<Rightarrow> 'a comp) \<Rightarrow> 'a comp" where
  "try_except m h =
     (case snd m of
        Inl e \<Rightarrow> (fst m @ fst (h e), snd (h e))
      | Inr x \<Rightarrow> (fst m, Inr x))"

section \<open>The completion API\<close>

text \<open>
  The call either raises or returns a stream that the caller iterates. An element of the
  stream is either an exception raised while the next chunk is read or evaluated
  (a dropped connection, a chunk without choices) or the chunk's
  \<open>choices[0].delta.content\<close>, which is \<open>None\<close> or a text fragment.
\<close>

type_synonym chunk = "pyexn + string option"

type_synonym completion_api = "request \<Rightarrow> pyexn + chunk list"

definition completions_create :: "completion_api \<Rightarrow> request \<Rightarrow> chunk list comp" where
  "completions_create api req = ([Completion req], api req)"

text \<open>
  The loop \<open>for chunk in completion: acc += chunk.choices[0].delta.content or ""\<close>;
  it stops at the first exception.
\<close>

fun collect :: "string \<Rightarrow> chunk list \<Rightarrow> pyexn + string" where
  "collect acc [] = Inr acc"
| "collect acc (Inl e # cs) = Inl e"
| "collect acc (Inr None # cs) = collect acc cs"
| "collect acc (Inr (Some s) # cs) = collect (acc @ s) cs"

section \<open>Topic extraction (both variants)\<close>

definition topic_system_prompt :: string where
  "topic_system_prompt =
     ''Analyze the given conversation and return only a single-word topic (e.g., '' @
     [squote] @ ''coding'' @ [squote] @ '', '' @ [squote] @ ''gym'' @ [squote] @ '', '' @
     [squote] @ ''AI'' @ [squote] @ '', '' @ [squote] @ ''exams'' @ [squote] @ '', '' @
     [squote] @ ''sleep'' @ [squote] @
     '', etc.) that best represents the discussion.''"

definition topic_request :: "string \<Rightarrow> request" where
  "topic_request chat_context =
     \<lparr> model = ''llama3-70b-8192'',
       messages = [(''system'', topic_system_prompt), (''user'', chat_context)],
       temperature = 0.7,
       max_completion_tokens = 5,
       top_p = 1,
       stream = True \<rparr>"

text \<open>\<open>extract_topic_from_chat\<close>; the two variants have the same body.\<close>

definition extract_topic_from_chat :: "completion_api \<Rightarrow> string \<Rightarrow> string comp" where
  "extract_topic_from_chat api chat_context =
     try_except
       (bind (completions_create api (topic_request chat_context)) (\<lambda>completion.
        bind ([], collect [] completion) (\<lambda>topic.
        ret (py_lower (py_strip topic)))))
       (\<lambda>e. bind (emit (LogError ''Error extracting topic: '' e)) (\<lambda>_.
            ret ''funny''))"

section \<open>Caption generation\<close>

subsection \<open>Catalog variant\<close>

definition catalog_caption_prompt :: "string \<Rightarrow> string" where
  "catalog_caption_prompt topic =
     ''You are a meme expert. Generate ONLY a short, funny meme caption for the topic '' @
     [squote] @ topic @ [squote] @ ''. '' @
     ''DO NOT add any explanations, introductions, or extra text. Just output the caption.''"

definition catalog_caption_request :: "string \<Rightarrow> request" where
  "catalog_caption_request topic =
     \<lparr> model = ''llama3-70b-8192'',
       messages = [(''system'', catalog_caption_prompt topic)],
       temperature = 1.0,
       max_completion_tokens = 15,
       top_p = 1,
       stream = True \<rparr>"

text \<open>\<open>generate_meme_caption(topic, meme_name)\<close> of the catalog variant.\<close>

definition catalog_generate_meme_caption ::
  "completion_api \<Rightarrow> string \<Rightarrow> json \<Rightarrow> string comp" where
  "catalog_generate_meme_caption api topic meme_name =
     try_except
       (bind (completions_create api (catalog_caption_request topic)) (\<lambda>completion.
        bind ([], collect [] completion) (\<lambda>meme_caption.
        ret (py_replace dquote [] (py_strip meme_caption)))))
       (\<lambda>e. bind (emit (LogError ''Error generating meme caption: '' e)) (\<lambda>_.
            ret ''Me debugging at 3 AM...''))"

subsection \<open>Feed variant\<close>

definition feed_caption_prompt :: "string \<Rightarrow> string" where
  "feed_caption_prompt topic =
     ''Generate a funny meme caption about '' @ topic @
     ''. Keep it short and witty, under 10 words.''"

definition feed_caption_request :: "string \<Rightarrow> request" where
  "feed_caption_request topic =
     \<lparr> model = ''llama3-70b-8192'',
       messages = [(''system'', feed_caption_prompt topic)],
       temperature = 1.0,
       max_completion_tokens = 20,
       top_p = 1,
       stream = True \<rparr>"

text \<open>\<open>generate_meme_caption(topic)\<close> of the feed variant.\<close>

definition feed_generate_meme_caption :: "completion_api \<Rightarrow> string \<Rightarrow> string comp" where
  "feed_generate_meme_caption api topic =
     try_except
       (bind (completions_create api (feed_caption_request topic)) (\<lambda>completion.
        bind ([], collect [] completion) (\<lambda>meme_caption.
        ret (py_strip meme_caption))))
       (\<lambda>e. bind (emit (LogError ''Error generating meme caption: '' e)) (\<lambda>_.
            ret ''When life gives you errors, debug them!''))"

section \<open>The collaborators shared by the two variants\<close>

text \<open>
  An HTTP response: its status code, what \<open>response.json()\<close> gives (decoding a body
  that is not JSON raises) and its bytes, \<open>response.content\<close>.
\<close>

record response =
  status_code :: int
  json_body :: "pyexn + json"
  content :: string

text \<open>
  What a run cannot decide by itself: the completion client, what \<open>requests.get\<close> does
  for a URL (it raises on a transport error), and the number that the random generator
  draws.
\<close>

record env =
  client :: completion_api
  http_get :: "string \<Rightarrow> pyexn + response"
  rnd :: nat

definition requests_get :: "'a env_scheme \<Rightarrow> string \<Rightarrow> response comp" where
  "requests_get env u = ([HttpGet u], http_get env u)"

text \<open>
  \<open>_randbelow(n)\<close>: an index below \<open>n\<close>, for a positive \<open>n\<close>. The number that the
  generator draws is reduced modulo \<open>n\<close>, so that the draws of a whole number of periods,
  \<open>0 .. m * n - 1\<close>, give every index \<open>m\<close> times.
\<close>

definition randbelow :: "nat \<Rightarrow> nat \<Rightarrow> nat" where
  "randbelow r n = r mod n"

text \<open>\<open>random.choice\<close> on a list: \<open>IndexError\<close> when it is empty.\<close>

definition random_choice :: "nat \<Rightarrow> 'a list \<Rightarrow> pyexn + 'a" where
  "random_choice r xs =
     (if xs = [] then Inl IndexError else Inr (xs ! randbelow r (length xs)))"

section \<open>JSON values in Python\<close>

text \<open>The truth value of a decoded JSON value.\<close>

fun truthy :: "json \<Rightarrow> bool" where
  "truthy JNull = False"
| "truthy (JBool b) = b"
| "truthy (JInt n) = (n \<noteq> 0)"
| "truthy (JFloat x) = (x \<noteq> 0)"
| "truthy (JStr s) = (s \<noteq> [])"
| "truthy (JList xs) = (xs \<noteq> [])"
| "truthy (JObj kvs) = (kvs \<noteq> [])"

text \<open>
  \<open>v[k]\<close> for a string \<open>k\<close>: the member of a dict (the last one of that name in the
  text), \<open>KeyError\<close> when there is none, \<open>TypeError\<close> on anything that is not a dict.
\<close>

fun getitem :: "json \<Rightarrow> string \<Rightarrow> json comp" where
  "getitem (JObj kvs) k =
     (case map_of (rev kvs) k of None \<Rightarrow> raise KeyError | Some v \<Rightarrow> ret v)"
| "getitem _ k = raise TypeError"

text \<open>
  \<open>random.choice(v)\<close> for a decoded JSON value: an element of a list, a character of a
  string; a dict that is not empty is subscripted with an integer, which is never one of
  its keys; the other values have no length.
\<close>

fun json_choice :: "nat \<Rightarrow> json \<Rightarrow> json comp" where
  "json_choice r (JList xs) = ([], random_choice r xs)"
| "json_choice r (JStr s) = ([], map_sum id (\<lambda>c. JStr [c]) (random_choice r s))"
| "json_choice r (JObj kvs) = (if kvs = [] then raise IndexError else raise KeyError)"
| "json_choice r _ = raise TypeError"

section \<open>The catalog variant\<close>

record catalog_env = env +
  http_post :: "string \<Rightarrow> (string \<times> json) list \<Rightarrow> pyexn + response"
  imgflip_username :: string
  imgflip_password :: string

definition requests_post ::
  "catalog_env \<Rightarrow> string \<Rightarrow> (string \<times> json) list \<Rightarrow> response comp" where
  "requests_post env u params = ([HttpPost u params], http_post env u params)"

text \<open>\<open>fetch_meme_template\<close>: the triple of id, URL and name.\<close>

definition fetch_meme_template :: "catalog_env \<Rightarrow> (json \<times> json \<times> json) comp" where
  "fetch_meme_template env =
     bind (requests_get env ''https://api.imgflip.com/get_memes'') (\<lambda>response.
     if status_code response = 200 then
       bind ([], json_body response) (\<lambda>body.
       bind (getitem body ''data'') (\<lambda>data.
       bind (getitem data ''memes'') (\<lambda>memes.
       bind (json_choice (rnd env) memes) (\<lambda>selected_meme.
       bind (getitem selected_meme ''id'') (\<lambda>meme_id.
       bind (getitem selected_meme ''url'') (\<lambda>meme_url.
       bind (getitem selected_meme ''name'') (\<lambda>meme_name.
       ret (meme_id, meme_url, meme_name))))))))
     else ret (JNull, JNull, JNull))"

text \<open>
  The value of the \<open>return\<close> of \<open>fetch_meme_template\<close> for a selected template:
  \<open>selected_meme["id"], selected_meme["url"], selected_meme["name"]\<close>.
\<close>

definition template_triple :: "json \<Rightarrow> (json \<times> json \<times> json) comp" where
  "template_triple selected_meme =
     bind (getitem selected_meme ''id'') (\<lambda>meme_id.
     bind (getitem selected_meme ''url'') (\<lambda>meme_url.
     bind (getitem selected_meme ''name'') (\<lambda>meme_name.
     ret (meme_id, meme_url, meme_name))))"

text \<open>\<open>create_meme(meme_id, text)\<close>\<close>

definition create_meme :: "catalog_env \<Rightarrow> json \<Rightarrow> string \<Rightarrow> unit comp" where
  "create_meme env meme_id text =
     (let params =
        [(''template_id'', meme_id),
         (''username'', JStr (imgflip_username env)),
         (''password'', JStr (imgflip_password env)),
         (''text0'', JStr text),
         (''text1'', JStr [])]
      in
      bind (requests_post env ''https://api.imgflip.com/caption_image'' params) (\<lambda>response.
      bind (if status_code response = 200 then
              bind ([], json_body response) (\<lambda>body.
              bind (getitem body ''success'') (\<lambda>success.
              ret (truthy success)))
            else ret False) (\<lambda>ok.
      if ok then
        bind ([], json_body response) (\<lambda>body.
        bind (getitem body ''data'') (\<lambda>data.
        bind (getitem data ''url'') (\<lambda>meme_url.
        emit (Print (Meme_Generated meme_url)))))
      else emit (Print Error_Imgflip))))"

text \<open>\<open>generate_meme_from_chat\<close> of the catalog variant.\<close>

definition catalog_generate_meme_from_chat :: "catalog_env \<Rightarrow> string \<Rightarrow> unit comp" where
  "catalog_generate_meme_from_chat env chat_context =
     bind (extract_topic_from_chat (client env) chat_context) (\<lambda>topic.
     bind (fetch_meme_template env) (\<lambda>(meme_id, meme_image_url, meme_name).
     if \<not> truthy meme_id then emit (Print Error_Template)
     else
       bind (catalog_generate_meme_caption (client env) topic meme_name) (\<lambda>meme_text.
       bind (emit (Print (Meme_Topic topic))) (\<lambda>_.
       bind (emit (Print (Meme_Text meme_text))) (\<lambda>_.
       bind (emit (Print (Using_Template meme_name meme_image_url))) (\<lambda>_.
       create_meme env meme_id meme_text))))))"

section \<open>The feed variant\<close>

record post =
  stickied :: bool
  url :: string

text \<open>
  The feed client and the imaging library: the hot listing of a subreddit (reading it
  raises, or it gives the posts in order), \<open>Image.open\<close> on the downloaded bytes (the
  size of the image), \<open>ImageFont.truetype\<close> for a file and a size, \<open>draw.textbbox\<close> at
  the origin for a text in the loaded font, and \<open>img.save\<close> for a file name.
\<close>

record feed_env = env +
  hot_listing :: "string \<Rightarrow> pyexn + post list"
  image_open :: "string \<Rightarrow> pyexn + (int \<times> int)"
  truetype :: "string \<Rightarrow> nat \<Rightarrow> pyexn + unit"
  textbbox :: "string \<Rightarrow> pyexn + (int \<times> int \<times> int \<times> int)"
  image_save :: "string \<Rightarrow> pyexn + unit"

text \<open>\<open>self.reddit.subreddit(name).hot(limit=n)\<close>: at most \<open>n\<close> posts.\<close>

definition subreddit_hot :: "feed_env \<Rightarrow> string \<Rightarrow> nat \<Rightarrow> post list comp" where
  "subreddit_hot env name n = ([FeedHot name n], map_sum id (take n) (hot_listing env name))"

text \<open>\<open>fetch_meme_from_reddit\<close>: a URL or \<open>None\<close>.\<close>

definition fetch_meme_from_reddit :: "feed_env \<Rightarrow> string option comp" where
  "fetch_meme_from_reddit env =
     try_except
       (bind (subreddit_hot env ''memes'' 50) (\<lambda>posts.
        let memes = filter (\<lambda>post. \<not> stickied post \<and> py_endswith_any (url post) [''jpg'', ''png'']) posts
        in if memes \<noteq> [] then
             bind ([], random_choice (rnd env) memes) (\<lambda>meme_post.
             ret (Some (url meme_post)))
           else ret None))
       (\<lambda>e. bind (emit (LogError ''Error fetching meme from Reddit: '' e)) (\<lambda>_.
            ret None))"

text \<open>\<open>overlay_text_on_image(image_url, text)\<close>\<close>

definition overlay_text_on_image :: "feed_env \<Rightarrow> string \<Rightarrow> string \<Rightarrow> unit comp" where
  "overlay_text_on_image env image_url text =
     try_except
       (bind (requests_get env image_url) (\<lambda>response.
        if status_code response \<noteq> 200 then emit (Print Error_Image)
        else
          bind ([], image_open env (content response)) (\<lambda>(width, height).
          bind ([], truetype env ''arial.ttf'' 40) (\<lambda>font.
          bind ([], textbbox env text) (\<lambda>(bbox0, bbox1, bbox2, bbox3).
          let text_width = bbox2 - bbox0;
              text_height = bbox3 - bbox1;
              x = (width - text_width) div 2;
              y = height - 100
          in
          bind (emit (DrawText (x - 2, y - 2) text ''black'')) (\<lambda>_.
          bind (emit (DrawText (x + 2, y + 2) text ''black'')) (\<lambda>_.
          bind (emit (DrawText (x, y) text ''white'')) (\<lambda>_.
          bind ([], image_save env ''generated_meme.jpg'') (\<lambda>_.
          bind (emit (Save ''generated_meme.jpg'')) (\<lambda>_.
          bind (emit Show) (\<lambda>_.
          emit (Print Generated_OK))))))))))))
       (\<lambda>e. emit (LogError ''Error overlaying text on image: '' e))"

text \<open>\<open>generate_meme_from_chat\<close> of the feed variant.\<close>

definition feed_generate_meme_from_chat :: "feed_env \<Rightarrow> string \<Rightarrow> unit comp" where
  "feed_generate_meme_from_chat env chat_context =
     bind (extract_topic_from_chat (client env) chat_context) (\<lambda>topic.
     bind (feed_generate_meme_caption (client env) topic) (\<lambda>meme_text.
     bind (fetch_meme_from_reddit env) (\<lambda>meme_url.
     case meme_url of
       None \<Rightarrow> emit (Print Failed_Reddit)
     | Some u \<Rightarrow>
         if u \<noteq> [] then
           bind (emit (Print (Reddit_URL u))) (\<lambda>_.
           overlay_text_on_image env u meme_text)
         else emit (Print Failed_Reddit))))"

section \<open>Observing a run\<close>

text \<open>
  The calls of a run to its collaborators (the completion API, HTTP, the feed), in order,
  without what it prints, logs and draws.
\<close>

fun is_call :: "event \<Rightarrow> bool" where
  "is_call (Completion req) = True"
| "is_call (HttpGet u) = True"
| "is_call (HttpPost u params) = True"
| "is_call (FeedHot name n) = True"
| "is_call _ = False"

definition calls :: "event list \<Rightarrow> event list" where
  "calls es = filter is_call es"

text \<open>
  The drawing operations of a run.
\<close>

fun is_draw :: "event \<Rightarrow> bool" where
  "is_draw (DrawText pos text fill) = True"
| "is_draw _ = False"

section \<open>Mocked collaborators\<close>

text \<open>
  The collaborators of the end-to-end scenario: the topic call (the request with two
  messages) streams \<open>"coding"\<close>, the caption call streams a caption, the catalog has
  two templates and the captioning API gives a hosted URL.
\<close>

definition mock_client :: completion_api where
  "mock_client req =
     (if length (messages req) = 2 then Inr [Inr (Some ''coding'')]
      else Inr [Inr (Some ''When the bug is a missing semicolon'')])"

text \<open>A completion client that answers every request in the same way.\<close>

definition mock_stream :: "pyexn + chunk list \<Rightarrow> completion_api" where
  "mock_stream answer req = answer"

definition mock_response :: "int \<Rightarrow> json \<Rightarrow> response" where
  "mock_response code body = \<lparr> status_code = code, json_body = Inr body, content = [] \<rparr>"

definition mock_templates :: json where
  "mock_templates =
     JObj [(''success'', JBool True),
           (''data'', JObj [(''memes'',
              JList [JObj [(''id'', JStr ''1''), (''name'', JStr ''Drake''),
                           (''url'', JStr ''http://x/1.png'')],
                     JObj [(''id'', JStr ''2''), (''name'', JStr ''Doge''),
                           (''url'', JStr ''http://x/2.png'')]])])]"

definition mock_captioned :: json where
  "mock_captioned =
     JObj [(''success'', JBool True), (''data'', JObj [(''url'', JStr ''http://h/m.jpg'')])]"

definition mock_catalog_env :: "(pyexn + response) \<Rightarrow> (pyexn + response) \<Rightarrow> catalog_env" where
  "mock_catalog_env got posted =
     \<lparr> client = mock_client,
       http_get = (\<lambda>u. got),
       rnd = 4,
       http_post = (\<lambda>u params. posted),
       imgflip_username = ''user'',
       imgflip_password = ''secret'' \<rparr>"

text \<open>
  The feed variant: every image download answers 200, the image is 800 by 600, the font
  loads, a text is 20 wide for each character, and saving succeeds. The feed has 50
  posts: 10 stickied ones, one post with the given URL, 19 GIF posts and 20 JPEG posts
  with 20 different URLs.
\<close>

definition mock_image :: response where
  "mock_image = \<lparr> status_code = 200, json_body = Inl (External ''JSONDecodeError''), content = ''JFIF'' \<rparr>"

definition mock_feed_env :: "(pyexn + post list) \<Rightarrow> nat \<Rightarrow> feed_env" where
  "mock_feed_env listing r =
     \<lparr> client = mock_client,
       http_get = (\<lambda>u. Inr mock_image),
       rnd = r,
       hot_listing = (\<lambda>name. listing),
       image_open = (\<lambda>bytes. Inr (800, 600)),
       truetype = (\<lambda>file size. Inr ()),
       textbbox = (\<lambda>text. Inr (0, 8, 20 * int (length text), 48)),
       image_save = (\<lambda>file. Inr ()) \<rparr>"

definition mock_feed :: "string \<Rightarrow> post list" where
  "mock_feed u =
     replicate 10 \<lparr> stickied = True, url = ''https://i.redd.it/pinned.jpg'' \<rparr>
     @ [\<lparr> stickied = False, url = u \<rparr>]
     @ replicate 19 \<lparr> stickied = False, url = ''https://i.redd.it/clip.gif'' \<rparr>
     @ map (\<lambda>i. \<lparr> stickied = False,
                   url = ''https://i.redd.it/'' @ replicate (Suc i) CHR ''m'' @ ''.jpg'' \<rparr>)
         [0..<20]"

section \<open>Strings: stripping and lower case\<close>

lemma rstrip_prefix: "xs = rev (dropWhile P (rev xs)) @ rev (takeWhile P (rev xs))"
proof -
  have "rev (takeWhile P (rev xs) @ dropWhile P (rev xs)) = xs"
    by (simp only: takeWhile_dropWhile_id rev_rev_ident)
  then show ?thesis by (simp only: rev_append)
qed

lemma rstrip_hd:
  assumes "rev (dropWhile P (rev xs)) \<noteq> []"
  shows "hd (rev (dropWhile P (rev xs))) = hd xs"
proof -
  have "hd xs = hd (rev (dropWhile P (rev xs)) @ rev (takeWhile P (rev xs)))"
    using rstrip_prefix [of xs P] by simp
  with assms show ?thesis by simp
qed

lemma py_strip_hd:
  assumes "py_strip s \<noteq> []"
  shows "\<not> py_isspace (hd (py_strip s))"
proof -
  let ?t = "dropWhile py_isspace s"
  from assms have ne: "rev (dropWhile py_isspace (rev ?t)) \<noteq> []"
    by (simp add: py_strip_def)
  have "?t \<noteq> []"
  proof
    assume "?t = []"
    then have "rev (dropWhile py_isspace (rev ?t)) = []"
      by (simp only: rev.simps dropWhile.simps)
    with ne show False by contradiction
  qed
  then have "\<not> py_isspace (hd ?t)" by (rule hd_dropWhile)
  moreover have "hd (py_strip s) = hd ?t"
    unfolding py_strip_def using ne by (rule rstrip_hd)
  ultimately show ?thesis by simp
qed

lemma py_strip_last: "py_strip s \<noteq> [] \<Longrightarrow> \<not> py_isspace (last (py_strip s))"
  unfolding py_strip_def by (simp add: last_rev hd_dropWhile)

lemma lower_char_idem: "lower_char (lower_char c) = lower_char c"
  by (auto simp: lower_char_def py_isupper_def Let_def)

lemma py_lower_idem: "py_lower (py_lower s) = py_lower s"
  by (simp add: py_lower_def lower_char_idem)

lemma isspace_lower_char: "py_isspace (lower_char c) = py_isspace c"
  by (auto simp: lower_char_def py_isupper_def py_isspace_def Let_def)

lemma no_dquote_replace: "dquote \<notin> set (py_replace dquote [] s)"
  by (induction s) (auto simp: py_replace_def)

section \<open>The streamed completion\<close>

lemma collect_fragments:
  "collect acc (map Inr ds) = Inr (acc @ concat (map (case_option [] id) ds))"
proof (induction ds arbitrary: acc)
  case Nil
  show ?case by simp
next
  case (Cons d ds)
  then show ?case by (cases d) simp_all
qed

lemmas comp_defs = try_except_def bind_def completions_create_def emit_def ret_def raise_def

lemma extract_topic_cases:
  "extract_topic_from_chat api chat =
     (case api (topic_request chat) of
        Inl e \<Rightarrow> ([Completion (topic_request chat), LogError ''Error extracting topic: '' e], Inr ''funny'')
      | Inr cs \<Rightarrow>
          (case collect [] cs of
             Inl e \<Rightarrow> ([Completion (topic_request chat), LogError ''Error extracting topic: '' e], Inr ''funny'')
           | Inr t \<Rightarrow> ([Completion (topic_request chat)], Inr (py_lower (py_strip t)))))"
  by (simp add: extract_topic_from_chat_def comp_defs split: sum.splits)

lemma catalog_caption_cases:
  "catalog_generate_meme_caption api topic meme_name =
     (case api (catalog_caption_request topic) of
        Inl e \<Rightarrow> ([Completion (catalog_caption_request topic), LogError ''Error generating meme caption: '' e],
                  Inr ''Me debugging at 3 AM...'')
      | Inr cs \<Rightarrow>
          (case collect [] cs of
             Inl e \<Rightarrow> ([Completion (catalog_caption_request topic), LogError ''Error generating meme caption: '' e],
                       Inr ''Me debugging at 3 AM...'')
           | Inr t \<Rightarrow> ([Completion (catalog_caption_request topic)], Inr (py_replace dquote [] (py_strip t)))))"
  by (simp add: catalog_generate_meme_caption_def comp_defs split: sum.splits)

lemma feed_caption_cases:
  "feed_generate_meme_caption api topic =
     (case api (feed_caption_request topic) of
        Inl e \<Rightarrow> ([Completion (feed_caption_request topic), LogError ''Error generating meme caption: '' e],
                  Inr ''When life gives you errors, debug them!'')
      | Inr cs \<Rightarrow>
          (case collect [] cs of
             Inl e \<Rightarrow> ([Completion (feed_caption_request topic), LogError ''Error generating meme caption: '' e],
                       Inr ''When life gives you errors, debug them!'')
           | Inr t \<Rightarrow> ([Completion (feed_caption_request topic)], Inr (py_strip t))))"
  by (simp add: feed_generate_meme_caption_def comp_defs split: sum.splits)

section \<open>Topic extraction\<close>

text \<open>
  C7. When the completion call raises, on the call itself or while the stream is read,
  \<open>extract_topic_from_chat\<close> logs the error and returns exactly \<open>"funny"\<close>, after a single
  call of the API (no retry). When the stream is read to its end, the result is the
  concatenation of the fragments (an absent fragment counts as the empty string),
  stripped of surrounding whitespace and put in lower case. The function is the same in
  the two variants.
\<close>

theorem extract_topic_fallback_and_success:
  "(api (topic_request chat) = Inl e \<longrightarrow>
      extract_topic_from_chat api chat =
        ([Completion (topic_request chat), LogError ''Error extracting topic: '' e], Inr ''funny''))
   \<and> (api (topic_request chat) = Inr cs \<and> collect [] cs = Inl e \<longrightarrow>
      extract_topic_from_chat api chat =
        ([Completion (topic_request chat), LogError ''Error extracting topic: '' e], Inr ''funny''))
   \<and> (api (topic_request chat) = Inr (map Inr ds) \<longrightarrow>
      extract_topic_from_chat api chat =
        ([Completion (topic_request chat)],
         Inr (py_lower (py_strip (concat (map (case_option [] id) ds))))))"
  by (simp add: extract_topic_cases collect_fragments)

theorem extract_topic_fallback_and_success_witness:
  "extract_topic_from_chat (\<lambda>r. Inl (External ''timeout'')) ''hi'' =
     ([Completion (topic_request ''hi''), LogError ''Error extracting topic: '' (External ''timeout'')],
      Inr ''funny'')
   \<and> extract_topic_from_chat (\<lambda>r. Inr [Inr (Some ''Gy''), Inl IndexError]) ''hi'' =
     ([Completion (topic_request ''hi''), LogError ''Error extracting topic: '' IndexError], Inr ''funny'')
   \<and> extract_topic_from_chat (\<lambda>r. Inr (map Inr [Some '' Co'', None, Some ''DING  ''])) ''hi'' =
     ([Completion (topic_request ''hi'')], Inr ''coding'')"
proof -
  have a: "(\<lambda>r::request. (Inl (External ''timeout'') :: pyexn + chunk list)) (topic_request ''hi'')
             = Inl (External ''timeout'')"
    by simp
  have b: "(\<lambda>r::request. (Inr [Inr (Some ''Gy''), Inl IndexError] :: pyexn + chunk list)) (topic_request ''hi'')
             = Inr [Inr (Some ''Gy''), Inl IndexError]
           \<and> collect [] [Inr (Some ''Gy''), Inl IndexError] = Inl IndexError"
    by simp
  have c: "(\<lambda>r::request. (Inr (map Inr [Some '' Co'', None, Some ''DING  '']) :: pyexn + chunk list))
             (topic_request ''hi'') = Inr (map Inr [Some '' Co'', None, Some ''DING  ''])"
    by simp
  have d: "py_lower (py_strip (concat (map (case_option [] id) [Some '' Co'', None, Some ''DING  ''])))
             = ''coding''"
    by code_simp
  show ?thesis
    using
      extract_topic_fallback_and_success
        [of "\<lambda>r. Inl (External ''timeout'')" "''hi''" "External ''timeout''" "[]" "[]"]
      extract_topic_fallback_and_success
        [of "\<lambda>r. Inr [Inr (Some ''Gy''), Inl IndexError]" "''hi''" IndexError
            "[Inr (Some ''Gy''), Inl IndexError]" "[]"]
      extract_topic_fallback_and_success
        [of "\<lambda>r. Inr (map Inr [Some '' Co'', None, Some ''DING  ''])" "''hi''" IndexError "[]"
            "[Some '' Co'', None, Some ''DING  '']"]
      a b c d
    by simp
qed

lemma lower_char_not_upper: "\<not> py_isupper (lower_char c)"
  by (auto simp: lower_char_def py_isupper_def Let_def)

lemma py_strip_nonempty:
  assumes "c \<in> set s" and "\<not> py_isspace c"
  shows "py_strip s \<noteq> []"
proof -
  let ?t = "dropWhile py_isspace s"
  from assms have "?t \<noteq> []" by auto
  then have "hd ?t \<in> set (rev ?t)" and "\<not> py_isspace (hd ?t)"
    by (simp_all add: hd_dropWhile)
  then have "dropWhile py_isspace (rev ?t) \<noteq> []"
    by (auto simp del: set_rev)
  then show ?thesis by (simp add: py_strip_def)
qed

lemma py_strip_empty_iff: "py_strip s = [] \<longleftrightarrow> list_all py_isspace s"
proof
  assume "py_strip s = []"
  then have "dropWhile py_isspace (rev (dropWhile py_isspace s)) = []"
    by (simp add: py_strip_def)
  then have "\<forall>x \<in> set (dropWhile py_isspace s). py_isspace x"
    by (simp add: dropWhile_eq_Nil_conv)
  moreover have "dropWhile py_isspace s \<noteq> [] \<Longrightarrow> \<not> py_isspace (hd (dropWhile py_isspace s))"
    by (rule hd_dropWhile)
  ultimately have "dropWhile py_isspace s = []"
    using hd_in_set by blast
  then show "list_all py_isspace s"
    by (simp add: dropWhile_eq_Nil_conv list_all_iff)
next
  assume "list_all py_isspace s"
  then have "dropWhile py_isspace s = []"
    by (simp add: dropWhile_eq_Nil_conv list_all_iff)
  then show "py_strip s = []"
    by (simp only: py_strip_def rev.simps dropWhile.simps)
qed

lemma py_strip_keeps_inner:
  assumes a: "\<not> list_all py_isspace a" and b: "\<not> list_all py_isspace b"
  shows "py_strip (a @ [c] @ b) = dropWhile py_isspace a @ [c] @ rev (dropWhile py_isspace (rev b))"
proof -
  from a obtain x where x: "x \<in> set a" "\<not> py_isspace x" by (auto simp: list_all_iff)
  from b obtain y where y: "y \<in> set (rev b)" "\<not> py_isspace y" by (auto simp: list_all_iff)
  have 1: "dropWhile py_isspace (a @ [c] @ b) = dropWhile py_isspace a @ [c] @ b"
    using x by (rule dropWhile_append1)
  have 2: "rev (dropWhile py_isspace a @ [c] @ b) = rev b @ (c # rev (dropWhile py_isspace a))"
    by simp
  have 3: "dropWhile py_isspace (rev b @ (c # rev (dropWhile py_isspace a)))
          = dropWhile py_isspace (rev b) @ (c # rev (dropWhile py_isspace a))"
    using y by (rule dropWhile_append1)
  have "py_strip (a @ [c] @ b) = rev (dropWhile py_isspace (rev (dropWhile py_isspace a @ [c] @ b)))"
    by (simp only: py_strip_def 1)
  also have "\<dots> = rev (dropWhile py_isspace (rev b) @ (c # rev (dropWhile py_isspace a)))"
    by (simp only: 2 3)
  also have "\<dots> = dropWhile py_isspace a @ [c] @ rev (dropWhile py_isspace (rev b))"
    by simp
  finally show ?thesis .
qed

lemma lower_char_newline: "lower_char newline = newline"
  by (simp add: lower_char_def py_isupper_def newline_def)

lemma topic_keeps_newline:
  assumes "\<not> list_all py_isspace a" and "\<not> list_all py_isspace b"
  shows "newline \<in> set (py_lower (py_strip (a @ [newline] @ b)))"
proof -
  have "newline \<in> set (dropWhile py_isspace a @ [newline] @ rev (dropWhile py_isspace (rev b)))"
    by simp
  then have "newline \<in> set (py_strip (a @ [newline] @ b))"
    by (simp only: py_strip_keeps_inner [OF assms])
  then have "lower_char newline \<in> set (py_lower (py_strip (a @ [newline] @ b)))"
    unfolding py_lower_def by (simp only: set_map) (rule imageI)
  then show ?thesis by (simp only: lower_char_newline)
qed

lemma funny_shape:
  "py_lower ''funny'' = ''funny'' \<and> \<not> py_isspace (hd ''funny'') \<and> \<not> py_isspace (last ''funny'')"
  by (simp add: py_lower_def lower_char_def py_isupper_def py_isspace_def)

lemma topic_shape:
  "py_lower (py_lower (py_strip s)) = py_lower (py_strip s)
   \<and> (py_lower (py_strip s) \<noteq> [] \<longrightarrow>
        \<not> py_isspace (hd (py_lower (py_strip s))) \<and> \<not> py_isspace (last (py_lower (py_strip s))))
   \<and> (py_lower (py_strip s) = [] \<longleftrightarrow> list_all py_isspace s)"
proof -
  have "\<not> py_isspace (hd (py_lower (py_strip s))) \<and> \<not> py_isspace (last (py_lower (py_strip s)))"
    if "py_lower (py_strip s) \<noteq> []"
  proof -
    from that have ne: "py_strip s \<noteq> []" by (simp add: py_lower_def)
    then show ?thesis
      by (simp add: py_lower_def hd_map last_map isspace_lower_char py_strip_hd py_strip_last)
  qed
  moreover have "py_lower (py_strip s) = [] \<longleftrightarrow> list_all py_isspace s"
    using py_strip_empty_iff [of s] by (simp add: py_lower_def)
  ultimately show ?thesis by (simp add: py_lower_idem)
qed

text \<open>
  On code points below U+0100, the range of \<open>py_lower\<close>, the topic has no upper-case
  character.
\<close>

lemma extract_topic_no_upper:
  "snd (extract_topic_from_chat api chat) = Inr t \<Longrightarrow> list_all (\<lambda>c. \<not> py_isupper c) t"
proof -
  have "list_all (\<lambda>c. \<not> py_isupper c) (py_lower s)" for s
    by (simp add: py_lower_def list_all_iff lower_char_not_upper)
  moreover have "list_all (\<lambda>c. \<not> py_isupper c) ''funny''"
    by (simp add: py_isupper_def)
  ultimately show "snd (extract_topic_from_chat api chat) = Inr t \<Longrightarrow> ?thesis"
    by (auto simp add: extract_topic_cases split: sum.splits)
qed

text \<open>
  C4, as the code has it. For every chat input and every behaviour of the completion
  API, \<open>extract_topic_from_chat\<close> returns a string that \<open>lower()\<close> leaves unchanged and
  that neither begins nor ends with a whitespace character (a newline included). The
  result is \<open>"funny"\<close> when the call or the stream raises. When the stream is read to
  its end, the result is empty exactly when the streamed text is empty or all
  whitespace, and a newline that has text other than whitespace on both of its sides
  stays in the result.
\<close>

theorem extract_topic_shape:
  "\<exists>t. snd (extract_topic_from_chat api chat) = Inr t
     \<and> py_lower t = t
     \<and> (t \<noteq> [] \<longrightarrow> \<not> py_isspace (hd t) \<and> \<not> py_isspace (last t))
     \<and> ((\<exists>e. api (topic_request chat) = Inl e) \<longrightarrow> t = ''funny'')
     \<and> ((\<exists>cs e. api (topic_request chat) = Inr cs \<and> collect [] cs = Inl e) \<longrightarrow> t = ''funny'')
     \<and> (\<forall>cs s. api (topic_request chat) = Inr cs \<and> collect [] cs = Inr s \<longrightarrow>
           (t = [] \<longleftrightarrow> list_all py_isspace s))
     \<and> (\<forall>cs a b. api (topic_request chat) = Inr cs \<and> collect [] cs = Inr (a @ [newline] @ b)
           \<and> \<not> list_all py_isspace a \<and> \<not> list_all py_isspace b \<longrightarrow> newline \<in> set t)"
proof (cases "api (topic_request chat)")
  case (Inl e)
  then show ?thesis using funny_shape by (simp add: extract_topic_cases)
next
  case (Inr cs)
  show ?thesis
  proof (cases "collect [] cs")
    case (Inl e)
    with Inr show ?thesis using funny_shape by (simp add: extract_topic_cases)
  next
    case inr: (Inr s)
    have r: "snd (extract_topic_from_chat api chat) = Inr (py_lower (py_strip s))"
      using Inr inr by (simp add: extract_topic_cases)
    have n: "newline \<in> set (py_lower (py_strip s))"
      if "s = a @ [newline] @ b" "\<not> list_all py_isspace a" "\<not> list_all py_isspace b" for a b
      using that topic_keeps_newline by blast
    show ?thesis
    proof (intro exI [of _ "py_lower (py_strip s)"] conjI)
      show "snd (extract_topic_from_chat api chat) = Inr (py_lower (py_strip s))" by (rule r)
      show "py_lower (py_lower (py_strip s)) = py_lower (py_strip s)"
        using topic_shape by blast
      show "py_lower (py_strip s) \<noteq> [] \<longrightarrow>
              \<not> py_isspace (hd (py_lower (py_strip s))) \<and> \<not> py_isspace (last (py_lower (py_strip s)))"
        using topic_shape by blast
      show "(\<exists>e. api (topic_request chat) = Inl e) \<longrightarrow> py_lower (py_strip s) = ''funny''"
        using Inr by simp
      show "(\<exists>cs e. api (topic_request chat) = Inr cs \<and> collect [] cs = Inl e) \<longrightarrow>
              py_lower (py_strip s) = ''funny''"
        using Inr inr by auto
      show "\<forall>cs s'. api (topic_request chat) = Inr cs \<and> collect [] cs = Inr s' \<longrightarrow>
              (py_lower (py_strip s) = [] \<longleftrightarrow> list_all py_isspace s')"
        using Inr inr topic_shape [of s] by auto
      show "\<forall>cs a b. api (topic_request chat) = Inr cs \<and> collect [] cs = Inr (a @ [newline] @ b)
              \<and> \<not> list_all py_isspace a \<and> \<not> list_all py_isspace b \<longrightarrow>
              newline \<in> set (py_lower (py_strip s))"
        using Inr inr n by auto
    qed
  qed
qed

theorem extract_topic_shape_witness:
  "snd (extract_topic_from_chat (mock_stream (Inl (External ''timeout''))) ''hi'') = Inr ''funny''
   \<and> snd (extract_topic_from_chat (mock_stream (Inr [Inr (Some ''Gy''), Inl IndexError])) ''hi'') = Inr ''funny''
   \<and> (\<exists>t. snd (extract_topic_from_chat (mock_stream (Inr [Inr (Some '' Gym '')])) ''hi'') = Inr t
          \<and> t \<noteq> [] \<and> py_lower t = t \<and> \<not> py_isspace (hd t) \<and> \<not> py_isspace (last t))
   \<and> snd (extract_topic_from_chat (mock_stream (Inr [Inr (Some ''  ''), Inr None])) ''hi'') = Inr []
   \<and> (\<exists>t. snd (extract_topic_from_chat (mock_stream (Inr [Inr (Some (''to'' @ [newline] @ ''pic''))])) ''hi'') = Inr t
          \<and> newline \<in> set t)"
proof -
  let ?a1 = "mock_stream (Inl (External ''timeout''))"
  let ?a2 = "mock_stream (Inr [Inr (Some ''Gy''), Inl IndexError])"
  let ?a3 = "mock_stream (Inr [Inr (Some '' Gym '')])"
  let ?a4 = "mock_stream (Inr [Inr (Some ''  ''), Inr None])"
  let ?a5 = "mock_stream (Inr [Inr (Some (''to'' @ [newline] @ ''pic''))])"
  have h1: "\<exists>e. ?a1 (topic_request ''hi'') = Inl e" by (simp add: mock_stream_def)
  have h2: "\<exists>cs e. ?a2 (topic_request ''hi'') = Inr cs \<and> collect [] cs = Inl e"
    by (simp add: mock_stream_def)
  have h3: "?a3 (topic_request ''hi'') = Inr [Inr (Some '' Gym '')]
        \<and> collect [] [Inr (Some '' Gym '')] = Inr '' Gym '' \<and> \<not> list_all py_isspace '' Gym ''"
    by (simp add: mock_stream_def py_isspace_def)
  have h4: "?a4 (topic_request ''hi'') = Inr [Inr (Some ''  ''), Inr None]
        \<and> collect [] [Inr (Some ''  ''), Inr None] = Inr ''  '' \<and> list_all py_isspace ''  ''"
    by (simp add: mock_stream_def py_isspace_def)
  have h5: "?a5 (topic_request ''hi'') = Inr [Inr (Some (''to'' @ [newline] @ ''pic''))]
        \<and> collect [] [Inr (Some (''to'' @ [newline] @ ''pic''))] = Inr (''to'' @ [newline] @ ''pic'')
        \<and> \<not> list_all py_isspace ''to'' \<and> \<not> list_all py_isspace ''pic''"
    by (simp add: mock_stream_def py_isspace_def)
  from extract_topic_shape [of ?a1 "''hi''"] h1
  have 1: "snd (extract_topic_from_chat ?a1 ''hi'') = Inr ''funny''" by blast
  from extract_topic_shape [of ?a2 "''hi''"] h2
  have 2: "snd (extract_topic_from_chat ?a2 ''hi'') = Inr ''funny''" by blast
  from extract_topic_shape [of ?a3 "''hi''"] h3
  have 3: "\<exists>t. snd (extract_topic_from_chat ?a3 ''hi'') = Inr t
          \<and> t \<noteq> [] \<and> py_lower t = t \<and> \<not> py_isspace (hd t) \<and> \<not> py_isspace (last t)"
    by blast
  from extract_topic_shape [of ?a4 "''hi''"] h4
  have 4: "snd (extract_topic_from_chat ?a4 ''hi'') = Inr []" by blast
  from extract_topic_shape [of ?a5 "''hi''"] h5
  have 5: "\<exists>t. snd (extract_topic_from_chat ?a5 ''hi'') = Inr t \<and> newline \<in> set t" by blast
  from 1 2 3 4 5 show ?thesis by blast
qed

text \<open>
  C4, as the claim states it, fails: an empty stream gives the empty topic, and a
  fragment with a newline inside gives a topic with that newline.
\<close>

theorem extract_topic_empty_or_newline:
  "snd (extract_topic_from_chat (mock_stream (Inr [])) ''hello'') = Inr []
   \<and> snd (extract_topic_from_chat (mock_stream (Inr [Inr (Some (''to'' @ [newline] @ ''pic''))])) ''hello'')
       = Inr (''to'' @ [newline] @ ''pic'')
   \<and> newline \<in> set (''to'' @ [newline] @ ''pic'')"
  by code_simp

section \<open>Captions\<close>

text \<open>
  C9. When the completion call raises, on the call itself or while the stream is read,
  \<open>generate_meme_caption\<close> logs the error and returns the fixed caption of its variant:
  \<open>"Me debugging at 3 AM..."\<close> in the catalog variant and
  \<open>"When life gives you errors, debug them!"\<close> in the feed variant.
\<close>

theorem caption_fallbacks:
  "(api (catalog_caption_request topic) = Inl e
      \<or> (\<exists>cs. api (catalog_caption_request topic) = Inr cs \<and> collect [] cs = Inl e) \<longrightarrow>
    catalog_generate_meme_caption api topic meme_name =
      ([Completion (catalog_caption_request topic), LogError ''Error generating meme caption: '' e],
       Inr ''Me debugging at 3 AM...''))
   \<and> (api (feed_caption_request topic) = Inl e
      \<or> (\<exists>cs. api (feed_caption_request topic) = Inr cs \<and> collect [] cs = Inl e) \<longrightarrow>
    feed_generate_meme_caption api topic =
      ([Completion (feed_caption_request topic), LogError ''Error generating meme caption: '' e],
       Inr ''When life gives you errors, debug them!''))"
  by (auto simp add: catalog_caption_cases feed_caption_cases)

theorem caption_fallbacks_witness:
  "catalog_generate_meme_caption (\<lambda>r. Inl (External ''timeout'')) ''gym'' (JStr ''Drake'') =
     ([Completion (catalog_caption_request ''gym''),
       LogError ''Error generating meme caption: '' (External ''timeout'')],
      Inr ''Me debugging at 3 AM...'')
   \<and> feed_generate_meme_caption (\<lambda>r. Inr [Inr (Some ''Leg''), Inl IndexError]) ''gym'' =
     ([Completion (feed_caption_request ''gym''),
       LogError ''Error generating meme caption: '' IndexError],
      Inr ''When life gives you errors, debug them!'')"
proof -
  let ?a1 = "\<lambda>r::request. (Inl (External ''timeout'') :: pyexn + chunk list)"
  let ?a2 = "\<lambda>r::request. (Inr [Inr (Some ''Leg''), Inl IndexError] :: pyexn + chunk list)"
  have h1: "?a1 (catalog_caption_request ''gym'') = Inl (External ''timeout'')" by simp
  have h2: "\<exists>cs. ?a2 (feed_caption_request ''gym'') = Inr cs \<and> collect [] cs = Inl IndexError"
    by simp
  from caption_fallbacks [of ?a1 "''gym''" "External ''timeout''" "JStr ''Drake''"] h1
  have 1: "catalog_generate_meme_caption ?a1 ''gym'' (JStr ''Drake'') =
     ([Completion (catalog_caption_request ''gym''),
       LogError ''Error generating meme caption: '' (External ''timeout'')],
      Inr ''Me debugging at 3 AM...'')"
    by blast
  from caption_fallbacks [of ?a2 "''gym''" IndexError "JStr ''Drake''"] h2
  have 2: "feed_generate_meme_caption ?a2 ''gym'' =
     ([Completion (feed_caption_request ''gym''),
       LogError ''Error generating meme caption: '' IndexError],
      Inr ''When life gives you errors, debug them!'')"
    by blast
  from 1 2 show ?thesis by blast
qed

text \<open>
  C10. In the catalog variant the caption does not depend on \<open>meme_name\<close>: two calls
  that differ only in it perform the same events and give the same result; the single
  request sent is built from the topic alone, with one system message.
\<close>

theorem catalog_caption_ignores_meme_name:
  "catalog_generate_meme_caption api topic name1 = catalog_generate_meme_caption api topic name2
   \<and> calls (fst (catalog_generate_meme_caption api topic name1)) = [Completion (catalog_caption_request topic)]
   \<and> messages (catalog_caption_request topic) = [(''system'', catalog_caption_prompt topic)]"
  by (simp add: catalog_caption_cases calls_def catalog_caption_request_def split: sum.splits)

text \<open>
  The catalog variant removes every double quote from the caption, and its fallback
  caption has none.
\<close>

lemma fallback_no_dquote: "dquote \<notin> set ''Me debugging at 3 AM...''"
  by (simp add: dquote_def)

lemma catalog_caption_no_dquote:
  "snd (catalog_generate_meme_caption api topic meme_name) = Inr c \<Longrightarrow> dquote \<notin> set c"
  using fallback_no_dquote
  by (auto simp add: catalog_caption_cases no_dquote_replace split: sum.splits)

text \<open>
  C2 at a failing input. The feed variant only strips whitespace: a streamed caption in
  double quotes is returned with its quotes.
\<close>

theorem feed_caption_keeps_dquote:
  "feed_generate_meme_caption (mock_stream (Inr [Inr (Some ([dquote] @ ''Monday again'' @ [dquote]))])) ''work''
     = ([Completion (feed_caption_request ''work'')], Inr ([dquote] @ ''Monday again'' @ [dquote]))
   \<and> dquote \<in> set ([dquote] @ ''Monday again'' @ [dquote])"
  by (simp add: feed_caption_cases mock_stream_def py_strip_def py_isspace_def dquote_def)

section \<open>Computations\<close>

lemma bind_Inr: "snd m = Inr x \<Longrightarrow> bind m f = (fst m @ fst (f x), snd (f x))"
  by (simp add: bind_def)

lemma bind_Inl: "snd m = Inl e \<Longrightarrow> bind m f = (fst m, Inl e)"
  by (simp add: bind_def)

lemma bind_ret: "bind (ret x) f = f x"
  by (simp add: bind_def ret_def)

lemma bind_pure: "bind ([], Inr x) f = f x"
  by (simp add: bind_def)

lemma bind_event: "bind (es, Inr x) f = (es @ fst (f x), snd (f x))"
  by (simp add: bind_def)

lemma bind_raise: "bind (es, Inl e) f = (es, Inl e)"
  by (simp add: bind_def)

lemma bind_emit: "bind (emit ev) f = (ev # fst (f ()), snd (f ()))"
  by (simp add: bind_def emit_def)

lemma calls_append: "calls (xs @ ys) = calls xs @ calls ys"
  by (simp add: calls_def)

lemma randbelow_less: "0 < n \<Longrightarrow> randbelow r n < n"
  by (simp add: randbelow_def)

lemma randbelow_id: "k < n \<Longrightarrow> randbelow k n = k"
  by (simp add: randbelow_def)

lemma random_choice_in: "xs \<noteq> [] \<Longrightarrow> random_choice r xs = Inr (xs ! randbelow r (length xs))"
  by (simp add: random_choice_def)

text \<open>
  The draws of a whole number of periods pick every position of a list equally often:
  among the draws \<open>0 .. m * n - 1\<close> for a list of \<open>n\<close> elements, the elements with a
  given property are picked \<open>m\<close> times each.
\<close>

lemma period_filter:
  "length (filter (\<lambda>r. P (r mod n)) [0..<m * n]) = m * length (filter P [0..<n])"
proof (induction m)
  case 0
  show ?case by simp
next
  case (Suc m)
  have split: "[0..<Suc m * n] = [0..<m * n] @ [m * n..<m * n + n]"
    using upt_add_eq_append [of 0 "m * n" n] by (simp add: add.commute)
  have block: "[m * n..<m * n + n] = map (\<lambda>i. i + m * n) [0..<n]"
    by (simp add: map_add_upt add.commute)
  have "length (filter (\<lambda>r. P (r mod n)) [m * n..<m * n + n])
          = length (filter ((\<lambda>r. P (r mod n)) \<circ> (\<lambda>i. i + m * n)) [0..<n])"
    by (simp only: block filter_map length_map)
  also have "filter ((\<lambda>r. P (r mod n)) \<circ> (\<lambda>i. i + m * n)) [0..<n] = filter P [0..<n]"
    by (rule filter_cong) simp_all
  finally have "length (filter (\<lambda>r. P (r mod n)) [m * n..<m * n + n]) = length (filter P [0..<n])" .
  then have blk: "length (filter (\<lambda>r. P (r mod n)) [m * n..<m * n + n]) = length (filter P [0..<n])" .
  have "length (filter (\<lambda>r. P (r mod n)) [0..<Suc m * n])
          = length (filter (\<lambda>r. P (r mod n)) [0..<m * n])
            + length (filter (\<lambda>r. P (r mod n)) [m * n..<m * n + n])"
    by (simp only: split filter_append length_append)
  also have "\<dots> = m * length (filter P [0..<n]) + length (filter P [0..<n])"
    by (simp only: Suc blk)
  finally show ?case by simp
qed

lemma nth_filter_count:
  "length (filter (\<lambda>i. Q (xs ! i)) [0..<length xs]) = length (filter Q xs)"
proof -
  have "length (filter Q (map (nth xs) [0..<length xs])) = length (filter (Q \<circ> nth xs) [0..<length xs])"
    by (simp only: filter_map length_map)
  then show ?thesis by (simp add: map_nth comp_def)
qed

lemma draws_uniform:
  "length (filter (\<lambda>r. Q (xs ! randbelow r (length xs))) [0..<m * length xs])
     = m * length (filter Q xs)"
  unfolding randbelow_def
  using period_filter [of "\<lambda>i. Q (xs ! i)" "length xs" m] by (simp add: nth_filter_count)

lemmas mock_defs = mock_catalog_env_def mock_response_def mock_templates_def mock_captioned_def

section \<open>The stages of the feed variant\<close>

lemma try_except_emit_returns: "snd (try_except m (\<lambda>e. emit (f e))) = Inr ()"
  by (simp add: try_except_def emit_def split: sum.splits)

lemma extract_topic_returns: "\<exists>t. snd (extract_topic_from_chat api chat) = Inr t"
  by (simp add: extract_topic_cases split: sum.splits)

lemma extract_topic_calls:
  "calls (fst (extract_topic_from_chat api chat)) = [Completion (topic_request chat)]"
  by (simp add: extract_topic_cases calls_def split: sum.splits)

lemma feed_caption_returns: "\<exists>t. snd (feed_generate_meme_caption api topic) = Inr t"
  by (simp add: feed_caption_cases split: sum.splits)

lemma feed_caption_calls:
  "calls (fst (feed_generate_meme_caption api topic)) = [Completion (feed_caption_request topic)]"
  by (simp add: feed_caption_cases calls_def split: sum.splits)

lemma fetch_reddit_cases:
  "fetch_meme_from_reddit env =
     (case hot_listing env ''memes'' of
        Inl e \<Rightarrow> ([FeedHot ''memes'' 50, LogError ''Error fetching meme from Reddit: '' e], Inr None)
      | Inr posts \<Rightarrow>
          (let memes = filter (\<lambda>post. \<not> stickied post \<and> py_endswith_any (url post) [''jpg'', ''png''])
                         (take 50 posts)
           in if memes \<noteq> []
              then ([FeedHot ''memes'' 50], Inr (Some (url (memes ! randbelow (rnd env) (length memes)))))
              else ([FeedHot ''memes'' 50], Inr None)))"
  by (simp add: fetch_meme_from_reddit_def subreddit_hot_def comp_defs random_choice_def Let_def
           split: sum.splits)

lemma fetch_reddit_returns: "\<exists>r. snd (fetch_meme_from_reddit env) = Inr r"
  by (simp add: fetch_reddit_cases Let_def split: sum.splits)

lemma fetch_reddit_calls: "calls (fst (fetch_meme_from_reddit env)) = [FeedHot ''memes'' 50]"
  by (simp add: fetch_reddit_cases calls_def Let_def split: sum.splits)

lemma overlay_cases:
  "overlay_text_on_image env image_url text =
     (case http_get env image_url of
        Inl e \<Rightarrow> ([HttpGet image_url, LogError ''Error overlaying text on image: '' e], Inr ())
      | Inr response \<Rightarrow>
          if status_code response \<noteq> 200 then ([HttpGet image_url, Print Error_Image], Inr ())
          else
            (case image_open env (content response) of
               Inl e \<Rightarrow> ([HttpGet image_url, LogError ''Error overlaying text on image: '' e], Inr ())
             | Inr (width, height) \<Rightarrow>
                 (case truetype env ''arial.ttf'' 40 of
                    Inl e \<Rightarrow> ([HttpGet image_url, LogError ''Error overlaying text on image: '' e], Inr ())
                  | Inr font \<Rightarrow>
                      (case textbbox env text of
                         Inl e \<Rightarrow> ([HttpGet image_url, LogError ''Error overlaying text on image: '' e], Inr ())
                       | Inr (bbox0, bbox1, bbox2, bbox3) \<Rightarrow>
                           (let x = (width - (bbox2 - bbox0)) div 2; y = height - 100;
                                draws = [DrawText (x - 2, y - 2) text ''black'',
                                         DrawText (x + 2, y + 2) text ''black'',
                                         DrawText (x, y) text ''white'']
                            in case image_save env ''generated_meme.jpg'' of
                                 Inl e \<Rightarrow>
                                   (HttpGet image_url # draws @
                                      [LogError ''Error overlaying text on image: '' e], Inr ())
                               | Inr saved \<Rightarrow>
                                   (HttpGet image_url # draws @
                                      [Save ''generated_meme.jpg'', Show, Print Generated_OK], Inr ()))))))"
  by (simp add: overlay_text_on_image_def requests_get_def comp_defs Let_def
           split: sum.splits prod.splits)

lemma overlay_returns: "snd (overlay_text_on_image env image_url text) = Inr ()"
  by (simp add: overlay_text_on_image_def try_except_emit_returns)

lemma overlay_calls: "calls (fst (overlay_text_on_image env image_url text)) = [HttpGet image_url]"
  by (simp add: overlay_cases calls_def Let_def split: sum.splits prod.splits)

section \<open>The two pipelines\<close>

lemma feed_pipeline_cases:
  assumes t: "snd (extract_topic_from_chat (client env) chat) = Inr topic"
    and c: "snd (feed_generate_meme_caption (client env) topic) = Inr meme_text"
    and f: "snd (fetch_meme_from_reddit env) = Inr meme_url"
  shows "feed_generate_meme_from_chat env chat =
     (fst (extract_topic_from_chat (client env) chat)
      @ fst (feed_generate_meme_caption (client env) topic)
      @ fst (fetch_meme_from_reddit env)
      @ (case meme_url of
           None \<Rightarrow> [Print Failed_Reddit]
         | Some u \<Rightarrow>
             if u \<noteq> [] then Print (Reddit_URL u) # fst (overlay_text_on_image env u meme_text)
             else [Print Failed_Reddit]),
      Inr ())"
  unfolding feed_generate_meme_from_chat_def
  by (simp add: bind_Inr [OF t] bind_Inr [OF c] bind_Inr [OF f] bind_event emit_def overlay_returns
           split: option.splits)

text \<open>
  The feed variant never raises: each of its stages catches every exception, and
  \<open>generate_meme_from_chat\<close> returns normally for every behaviour of its collaborators.
\<close>

lemma feed_pipeline_returns: "snd (feed_generate_meme_from_chat env chat) = Inr ()"
proof -
  obtain topic where t: "snd (extract_topic_from_chat (client env) chat) = Inr topic"
    using extract_topic_returns by blast
  obtain meme_text where c: "snd (feed_generate_meme_caption (client env) topic) = Inr meme_text"
    using feed_caption_returns by blast
  obtain meme_url where f: "snd (fetch_meme_from_reddit env) = Inr meme_url"
    using fetch_reddit_returns by blast
  show ?thesis by (simp add: feed_pipeline_cases [OF t c f])
qed

lemma feed_pipeline_calls:
  assumes t: "snd (extract_topic_from_chat (client env) chat) = Inr topic"
    and f: "snd (fetch_meme_from_reddit env) = Inr meme_url"
  shows "calls (fst (feed_generate_meme_from_chat env chat)) =
     [Completion (topic_request chat), Completion (feed_caption_request topic), FeedHot ''memes'' 50]
     @ (case meme_url of None \<Rightarrow> [] | Some u \<Rightarrow> if u \<noteq> [] then [HttpGet u] else [])"
proof -
  obtain meme_text where c: "snd (feed_generate_meme_caption (client env) topic) = Inr meme_text"
    using feed_caption_returns by blast
  have "calls [Print Failed_Reddit] = []" and "\<And>u es. calls (Print (Reddit_URL u) # es) = calls es"
    by (simp_all add: calls_def)
  then show ?thesis
    by (simp add: feed_pipeline_cases [OF t c f] calls_append extract_topic_calls feed_caption_calls
          fetch_reddit_calls overlay_calls split: option.splits)
qed

lemma bind_fst: "fst (bind m f) = fst m @ (case snd m of Inl e \<Rightarrow> [] | Inr x \<Rightarrow> fst (f x))"
  by (simp add: bind_def split: sum.splits)

lemma getitem_fst: "fst (getitem j k) = []"
  by (cases j) (simp_all add: ret_def raise_def split: option.splits)

lemma json_choice_fst: "fst (json_choice r j) = []"
  by (cases j) (simp_all add: ret_def raise_def)

lemma fetch_template_calls:
  "calls (fst (fetch_meme_template env)) = [HttpGet ''https://api.imgflip.com/get_memes'']"
  by (simp add: fetch_meme_template_def bind_fst getitem_fst json_choice_fst requests_get_def
        ret_def calls_def split: sum.splits)

lemma catalog_pipeline_no_template:
  assumes f: "snd (fetch_meme_template env) = Inr (meme_id, meme_image_url, meme_name)"
    and n: "\<not> truthy meme_id"
  shows "catalog_generate_meme_from_chat env chat =
     (fst (extract_topic_from_chat (client env) chat) @ fst (fetch_meme_template env)
        @ [Print Error_Template], Inr ())"
proof -
  obtain topic where t: "snd (extract_topic_from_chat (client env) chat) = Inr topic"
    using extract_topic_returns by blast
  show ?thesis
    unfolding catalog_generate_meme_from_chat_def
    by (simp add: bind_Inr [OF t] bind_Inr [OF f] n emit_def)
qed

text \<open>
  The catalog variant has no handler around the template fetch: an exception of
  \<open>requests.get\<close> leaves \<open>generate_meme_from_chat\<close>.
\<close>

lemma catalog_pipeline_get_error:
  assumes "http_get env ''https://api.imgflip.com/get_memes'' = Inl e"
  shows "catalog_generate_meme_from_chat env chat =
     (fst (extract_topic_from_chat (client env) chat) @ [HttpGet ''https://api.imgflip.com/get_memes''],
      Inl e)"
proof -
  obtain topic where t: "snd (extract_topic_from_chat (client env) chat) = Inr topic"
    using extract_topic_returns by blast
  from assms have f: "fetch_meme_template env = ([HttpGet ''https://api.imgflip.com/get_memes''], Inl e)"
    by (simp add: fetch_meme_template_def requests_get_def bind_raise)
  show ?thesis
    unfolding catalog_generate_meme_from_chat_def
    by (simp add: bind_Inr [OF t] f bind_raise)
qed

text \<open>
  C3. In the catalog variant, when the template fetch gives a null (or otherwise false)
  id, \<open>generate_meme_from_chat\<close> prints the error and returns at once: its only calls
  are the topic call and the catalog request, and no caption call is made. In the feed
  variant the first three calls of every run are the topic call, the caption call and the
  read of the feed, in this order; when no image is found these are all its calls and the
  run ends by printing the failure.
\<close>

theorem stage_order:
  "(snd (fetch_meme_template cenv) = Inr (meme_id, meme_image_url, meme_name) \<and> \<not> truthy meme_id \<longrightarrow>
      catalog_generate_meme_from_chat cenv chat =
        (fst (extract_topic_from_chat (client cenv) chat) @ fst (fetch_meme_template cenv)
           @ [Print Error_Template], Inr ())
      \<and> calls (fst (catalog_generate_meme_from_chat cenv chat)) =
          [Completion (topic_request chat), HttpGet ''https://api.imgflip.com/get_memes''])
   \<and> (snd (extract_topic_from_chat (client fenv) chat) = Inr topic \<longrightarrow>
      take 3 (calls (fst (feed_generate_meme_from_chat fenv chat))) =
        [Completion (topic_request chat), Completion (feed_caption_request topic), FeedHot ''memes'' 50]
      \<and> (snd (fetch_meme_from_reddit fenv) = Inr None \<longrightarrow>
           calls (fst (feed_generate_meme_from_chat fenv chat)) =
             [Completion (topic_request chat), Completion (feed_caption_request topic),
              FeedHot ''memes'' 50]
           \<and> last (fst (feed_generate_meme_from_chat fenv chat)) = Print Failed_Reddit))"
proof (intro conjI impI)
  assume a: "snd (fetch_meme_template cenv) = Inr (meme_id, meme_image_url, meme_name) \<and> \<not> truthy meme_id"
  then show p: "catalog_generate_meme_from_chat cenv chat =
        (fst (extract_topic_from_chat (client cenv) chat) @ fst (fetch_meme_template cenv)
           @ [Print Error_Template], Inr ())"
    by (simp add: catalog_pipeline_no_template)
  show "calls (fst (catalog_generate_meme_from_chat cenv chat)) =
          [Completion (topic_request chat), HttpGet ''https://api.imgflip.com/get_memes'']"
    by (simp add: p calls_append extract_topic_calls fetch_template_calls) (simp add: calls_def)
next
  assume t: "snd (extract_topic_from_chat (client fenv) chat) = Inr topic"
  obtain meme_url where f: "snd (fetch_meme_from_reddit fenv) = Inr meme_url"
    using fetch_reddit_returns by blast
  show "take 3 (calls (fst (feed_generate_meme_from_chat fenv chat))) =
        [Completion (topic_request chat), Completion (feed_caption_request topic), FeedHot ''memes'' 50]"
    by (simp add: feed_pipeline_calls [OF t f])
  assume n: "snd (fetch_meme_from_reddit fenv) = Inr None"
  show "calls (fst (feed_generate_meme_from_chat fenv chat)) =
             [Completion (topic_request chat), Completion (feed_caption_request topic),
              FeedHot ''memes'' 50]"
    by (simp add: feed_pipeline_calls [OF t n])
  obtain meme_text where c: "snd (feed_generate_meme_caption (client fenv) topic) = Inr meme_text"
    using feed_caption_returns by blast
  show "last (fst (feed_generate_meme_from_chat fenv chat)) = Print Failed_Reddit"
    by (simp add: feed_pipeline_cases [OF t c n])
qed

theorem stage_order_witness:
  "catalog_generate_meme_from_chat
     (mock_catalog_env (Inr (mock_response 500 JNull)) (Inl (External ''unused''))) ''debugging all night'' =
     (fst (extract_topic_from_chat mock_client ''debugging all night'')
        @ fst (fetch_meme_template (mock_catalog_env (Inr (mock_response 500 JNull)) (Inl (External ''unused''))))
        @ [Print Error_Template], Inr ())
   \<and> calls (fst (catalog_generate_meme_from_chat
        (mock_catalog_env (Inr (mock_response 500 JNull)) (Inl (External ''unused''))) ''debugging all night'')) =
       [Completion (topic_request ''debugging all night''), HttpGet ''https://api.imgflip.com/get_memes'']
   \<and> calls (fst (feed_generate_meme_from_chat (mock_feed_env (Inr []) 0) ''debugging all night'')) =
       [Completion (topic_request ''debugging all night''), Completion (feed_caption_request ''coding''),
        FeedHot ''memes'' 50]
   \<and> last (fst (feed_generate_meme_from_chat (mock_feed_env (Inr []) 0) ''debugging all night'')) =
       Print Failed_Reddit"
proof -
  let ?cenv = "mock_catalog_env (Inr (mock_response 500 JNull)) (Inl (External ''unused''))"
  let ?fenv = "mock_feed_env (Inr []) 0"
  have h1: "snd (fetch_meme_template ?cenv) = Inr (JNull, JNull, JNull) \<and> \<not> truthy JNull"
    by (simp add: fetch_meme_template_def requests_get_def bind_event ret_def mock_defs)
  have c: "client ?cenv = mock_client" "client ?fenv = mock_client"
    by (simp_all add: mock_catalog_env_def mock_feed_env_def)
  have "py_lower (py_strip ''coding'') = ''coding''" by code_simp
  then have h2: "snd (extract_topic_from_chat (client ?fenv) ''debugging all night'') = Inr ''coding''"
    by (simp add: c extract_topic_cases mock_client_def topic_request_def)
  have h3: "snd (fetch_meme_from_reddit ?fenv) = Inr None"
    by (simp add: fetch_reddit_cases mock_feed_env_def)
  from stage_order [of ?cenv JNull JNull JNull "''debugging all night''" ?fenv "''coding''"] h1 h2 h3
  show ?thesis unfolding c by blast
qed

text \<open>
  C1 at a failing input. In the catalog variant a transport error of the template
  request is raised to the caller of \<open>generate_meme_from_chat\<close>.
\<close>

theorem catalog_pipeline_raises:
  "catalog_generate_meme_from_chat
     (mock_catalog_env (Inl (External ''ConnectionError'')) (Inr (mock_response 200 mock_captioned)))
     ''debugging all night'' =
   ([Completion (topic_request ''debugging all night''), HttpGet ''https://api.imgflip.com/get_memes''],
    Inl (External ''ConnectionError''))"
proof -
  let ?env = "mock_catalog_env (Inl (External ''ConnectionError'')) (Inr (mock_response 200 mock_captioned))"
  have "http_get ?env ''https://api.imgflip.com/get_memes'' = Inl (External ''ConnectionError'')"
    by (simp add: mock_catalog_env_def)
  moreover have "fst (extract_topic_from_chat (client ?env) ''debugging all night'')
                   = [Completion (topic_request ''debugging all night'')]"
    by (simp add: extract_topic_cases mock_catalog_env_def mock_client_def topic_request_def)
  ultimately show ?thesis
    by (simp add: catalog_pipeline_get_error)
qed

section \<open>The template catalog\<close>

lemma template_triple_fst: "fst (template_triple t) = []"
  by (simp add: template_triple_def bind_fst getitem_fst ret_def split: sum.splits)

lemma fetch_template_list:
  assumes "http_get env ''https://api.imgflip.com/get_memes'' = Inr response"
    and "status_code response = 200"
    and "json_body response = Inr body"
    and "getitem body ''data'' = ret data"
    and "getitem data ''memes'' = ret (JList memes)"
  shows "fetch_meme_template env =
     ([HttpGet ''https://api.imgflip.com/get_memes''],
      if memes = [] then Inl IndexError
      else snd (template_triple (memes ! randbelow (rnd env) (length memes))))"
proof -
  have g: "requests_get env ''https://api.imgflip.com/get_memes''
             = ([HttpGet ''https://api.imgflip.com/get_memes''], Inr response)"
    using assms(1) by (simp add: requests_get_def)
  have t: "bind (getitem selected_meme ''id'') (\<lambda>meme_id.
           bind (getitem selected_meme ''url'') (\<lambda>meme_url.
           bind (getitem selected_meme ''name'') (\<lambda>meme_name.
           ret (meme_id, meme_url, meme_name)))) = template_triple selected_meme" for selected_meme
    by (simp add: template_triple_def)
  show ?thesis
  proof (cases "memes = []")
    case True
    then show ?thesis
      unfolding fetch_meme_template_def g
      by (simp add: bind_event assms bind_pure bind_ret random_choice_def bind_raise)
  next
    case False
    then have c: "random_choice (rnd env) memes = Inr (memes ! randbelow (rnd env) (length memes))"
      by (simp add: random_choice_def)
    show ?thesis
      unfolding fetch_meme_template_def g t
      using False by (simp add: bind_event assms bind_pure bind_ret c template_triple_fst)
  qed
qed

text \<open>
  C8, as the code has it. \<open>fetch_meme_template\<close> returns the all-null triple whenever
  the status of the response is not 200. When the status is 200 and the body holds a list
  of templates under \<open>data.memes\<close>: if the list is not empty and the template at the
  index drawn by \<open>random.choice\<close> has an id, a URL and a name, these three are the
  result, which is then the all-null triple only if all three are null; and the choice is
  uniform: among the draws \<open>0 .. m * n - 1\<close>, for \<open>n\<close> templates, a triple is returned
  \<open>m\<close> times for each template that has it.
\<close>

theorem fetch_meme_template_result:
  "(http_get env ''https://api.imgflip.com/get_memes'' = Inr response \<and> status_code response \<noteq> 200 \<longrightarrow>
      fetch_meme_template env =
        ([HttpGet ''https://api.imgflip.com/get_memes''], Inr (JNull, JNull, JNull)))
   \<and> (http_get env ''https://api.imgflip.com/get_memes'' = Inr response \<and> status_code response = 200
       \<and> json_body response = Inr body
       \<and> getitem body ''data'' = ret data
       \<and> getitem data ''memes'' = ret (JList memes) \<longrightarrow>
        (memes \<noteq> []
         \<and> selected_meme = memes ! randbelow (rnd env) (length memes)
         \<and> getitem selected_meme ''id'' = ret meme_id
         \<and> getitem selected_meme ''url'' = ret meme_url
         \<and> getitem selected_meme ''name'' = ret meme_name \<longrightarrow>
           fetch_meme_template env =
             ([HttpGet ''https://api.imgflip.com/get_memes''], Inr (meme_id, meme_url, meme_name))
           \<and> selected_meme \<in> set memes
           \<and> (snd (fetch_meme_template env) = Inr (JNull, JNull, JNull)
                \<longleftrightarrow> meme_id = JNull \<and> meme_url = JNull \<and> meme_name = JNull))
      \<and> length (filter (\<lambda>r. snd (fetch_meme_template (env\<lparr>rnd := r\<rparr>)) = Inr triple)
                  [0..<m * length memes])
          = m * length (filter (\<lambda>template. snd (template_triple template) = Inr triple) memes))"
proof (intro conjI impI)
  assume "http_get env ''https://api.imgflip.com/get_memes'' = Inr response \<and> status_code response \<noteq> 200"
  then show "fetch_meme_template env =
        ([HttpGet ''https://api.imgflip.com/get_memes''], Inr (JNull, JNull, JNull))"
    by (simp add: fetch_meme_template_def requests_get_def bind_def ret_def)
next
  assume a: "http_get env ''https://api.imgflip.com/get_memes'' = Inr response \<and> status_code response = 200
       \<and> json_body response = Inr body
       \<and> getitem body ''data'' = ret data
       \<and> getitem data ''memes'' = ret (JList memes)"
  then have l: "fetch_meme_template env' =
     ([HttpGet ''https://api.imgflip.com/get_memes''],
      if memes = [] then Inl IndexError
      else snd (template_triple (memes ! randbelow (rnd env') (length memes))))"
    if "http_get env' ''https://api.imgflip.com/get_memes'' = Inr response" for env'
    using that fetch_template_list [of env' response body data memes] by blast
  have hr: "http_get (env\<lparr>rnd := r\<rparr>) ''https://api.imgflip.com/get_memes'' = Inr response" for r
    using a by simp
  from a have h: "http_get env ''https://api.imgflip.com/get_memes'' = Inr response" by blast
  {
    assume b: "memes \<noteq> []
         \<and> selected_meme = memes ! randbelow (rnd env) (length memes)
         \<and> getitem selected_meme ''id'' = ret meme_id
         \<and> getitem selected_meme ''url'' = ret meme_url
         \<and> getitem selected_meme ''name'' = ret meme_name"
    then have i: "getitem selected_meme ''id'' = ret meme_id"
      and u: "getitem selected_meme ''url'' = ret meme_url"
      and n: "getitem selected_meme ''name'' = ret meme_name"
      and ne: "memes \<noteq> []"
      and s: "memes ! randbelow (rnd env) (length memes) = selected_meme"
      by blast+
    have "template_triple selected_meme = ret (meme_id, meme_url, meme_name)"
      by (simp add: template_triple_def i u n bind_ret)
    then show r: "fetch_meme_template env =
             ([HttpGet ''https://api.imgflip.com/get_memes''], Inr (meme_id, meme_url, meme_name))"
      by (simp add: l [OF h] ne s ret_def)
    from ne s show "selected_meme \<in> set memes"
      using randbelow_less [of "length memes" "rnd env"] nth_mem [of "randbelow (rnd env) (length memes)" memes]
      by auto
    show "snd (fetch_meme_template env) = Inr (JNull, JNull, JNull)
                \<longleftrightarrow> meme_id = JNull \<and> meme_url = JNull \<and> meme_name = JNull"
      by (simp add: r)
  next
    show "length (filter (\<lambda>r. snd (fetch_meme_template (env\<lparr>rnd := r\<rparr>)) = Inr triple)
                  [0..<m * length memes])
          = m * length (filter (\<lambda>template. snd (template_triple template) = Inr triple) memes)"
    proof (cases "memes = []")
      case True
      then show ?thesis by simp
    next
      case False
      then have "snd (fetch_meme_template (env\<lparr>rnd := r\<rparr>)) = Inr triple
                   \<longleftrightarrow> snd (template_triple (memes ! randbelow r (length memes))) = Inr triple" for r
        by (simp add: l [OF hr])
      then show ?thesis
        using draws_uniform [of "\<lambda>template. snd (template_triple template) = Inr triple" memes m]
        by simp
    qed
  }
qed

theorem fetch_meme_template_result_witness:
  "fetch_meme_template (mock_catalog_env (Inr (mock_response 500 JNull)) (Inl (External ''unused''))) =
     ([HttpGet ''https://api.imgflip.com/get_memes''], Inr (JNull, JNull, JNull))
   \<and> fetch_meme_template (mock_catalog_env (Inr (mock_response 200 mock_templates)) (Inl (External ''unused''))) =
     ([HttpGet ''https://api.imgflip.com/get_memes''], Inr (JStr ''1'', JStr ''http://x/1.png'', JStr ''Drake''))
   \<and> snd (fetch_meme_template (mock_catalog_env (Inr (mock_response 200 mock_templates)) (Inl (External ''unused''))))
       \<noteq> Inr (JNull, JNull, JNull)
   \<and> fetch_meme_template
        ((mock_catalog_env (Inr (mock_response 200 mock_templates)) (Inl (External ''unused'')))\<lparr>rnd := 5\<rparr>) =
     ([HttpGet ''https://api.imgflip.com/get_memes''], Inr (JStr ''2'', JStr ''http://x/2.png'', JStr ''Doge''))
   \<and> length (filter (\<lambda>r. snd (fetch_meme_template
                  ((mock_catalog_env (Inr (mock_response 200 mock_templates)) (Inl (External ''unused'')))\<lparr>rnd := r\<rparr>))
                = Inr (JStr ''2'', JStr ''http://x/2.png'', JStr ''Doge'')) [0..<3 * 2]) = 3"
proof -
  let ?bad = "mock_catalog_env (Inr (mock_response 500 JNull)) (Inl (External ''unused''))"
  let ?good = "mock_catalog_env (Inr (mock_response 200 mock_templates)) (Inl (External ''unused''))"
  let ?drake = "JObj [(''id'', JStr ''1''), (''name'', JStr ''Drake''), (''url'', JStr ''http://x/1.png'')]"
  let ?doge = "JObj [(''id'', JStr ''2''), (''name'', JStr ''Doge''), (''url'', JStr ''http://x/2.png'')]"
  let ?memes = "[?drake, ?doge]"
  let ?data = "JObj [(''memes'', JList ?memes)]"
  have h1: "http_get ?bad ''https://api.imgflip.com/get_memes'' = Inr (mock_response 500 JNull)
            \<and> status_code (mock_response 500 JNull) \<noteq> 200"
    by (simp add: mock_defs)
  have h2: "http_get env ''https://api.imgflip.com/get_memes'' = Inr (mock_response 200 mock_templates)
       \<and> status_code (mock_response 200 mock_templates) = 200
       \<and> json_body (mock_response 200 mock_templates) = Inr mock_templates
       \<and> getitem mock_templates ''data'' = ret ?data
       \<and> getitem ?data ''memes'' = ret (JList ?memes)"
    if "env = ?good \<or> env = ?good\<lparr>rnd := 5\<rparr>" for env
    using that by (auto simp add: mock_defs)
  have len: "length ?memes = 2" by simp
  have "randbelow 4 2 = 0" and "randbelow 5 2 = 1" by (simp_all add: randbelow_def)
  then have i4: "randbelow (rnd ?good) (length ?memes) = 0"
    and i5: "randbelow (rnd (?good\<lparr>rnd := 5\<rparr>)) (length ?memes) = 1"
    by (simp_all only: len mock_catalog_env_def env.simps env.update_convs)
  have h3: "?memes \<noteq> []
       \<and> ?drake = ?memes ! randbelow (rnd ?good) (length ?memes)
       \<and> getitem ?drake ''id'' = ret (JStr ''1'')
       \<and> getitem ?drake ''url'' = ret (JStr ''http://x/1.png'')
       \<and> getitem ?drake ''name'' = ret (JStr ''Drake'')"
    by (simp only: i4) simp
  have h4: "?memes \<noteq> []
       \<and> ?doge = ?memes ! randbelow (rnd (?good\<lparr>rnd := 5\<rparr>)) (length ?memes)
       \<and> getitem ?doge ''id'' = ret (JStr ''2'')
       \<and> getitem ?doge ''url'' = ret (JStr ''http://x/2.png'')
       \<and> getitem ?doge ''name'' = ret (JStr ''Doge'')"
    by (simp only: i5) simp
  have v: "length (filter (\<lambda>template. snd (template_triple template)
              = Inr (JStr ''2'', JStr ''http://x/2.png'', JStr ''Doge'')) ?memes) = 1"
    by (simp add: template_triple_def bind_def ret_def)
  from fetch_meme_template_result [of ?bad "mock_response 500 JNull"] h1
  have 1: "fetch_meme_template ?bad = ([HttpGet ''https://api.imgflip.com/get_memes''], Inr (JNull, JNull, JNull))"
    by blast
  from fetch_meme_template_result
         [of ?good "mock_response 200 mock_templates" mock_templates ?data ?memes ?drake
             "JStr ''1''" "JStr ''http://x/1.png''" "JStr ''Drake''"
             "(JStr ''2'', JStr ''http://x/2.png'', JStr ''Doge'')" 3] h2 [of ?good] h3
  have 2: "fetch_meme_template ?good =
     ([HttpGet ''https://api.imgflip.com/get_memes''], Inr (JStr ''1'', JStr ''http://x/1.png'', JStr ''Drake''))"
    and 3: "snd (fetch_meme_template ?good) \<noteq> Inr (JNull, JNull, JNull)"
    and cnt: "length (filter (\<lambda>r. snd (fetch_meme_template (?good\<lparr>rnd := r\<rparr>))
                = Inr (JStr ''2'', JStr ''http://x/2.png'', JStr ''Doge'')) [0..<3 * length ?memes])
              = 3 * length (filter (\<lambda>template. snd (template_triple template)
                  = Inr (JStr ''2'', JStr ''http://x/2.png'', JStr ''Doge'')) ?memes)"
    by blast+
  from fetch_meme_template_result
         [of "?good\<lparr>rnd := 5\<rparr>" "mock_response 200 mock_templates" mock_templates ?data ?memes ?doge
             "JStr ''2''" "JStr ''http://x/2.png''" "JStr ''Doge''"] h2 [of "?good\<lparr>rnd := 5\<rparr>"] h4
  have 4: "fetch_meme_template (?good\<lparr>rnd := 5\<rparr>) =
     ([HttpGet ''https://api.imgflip.com/get_memes''], Inr (JStr ''2'', JStr ''http://x/2.png'', JStr ''Doge''))"
    by blast
  from cnt have 5: "length (filter (\<lambda>r. snd (fetch_meme_template (?good\<lparr>rnd := r\<rparr>))
                = Inr (JStr ''2'', JStr ''http://x/2.png'', JStr ''Doge'')) [0..<3 * 2]) = 3"
    by (simp only: v len mult_1_right)
  from 1 2 3 4 5 show ?thesis by blast
qed

text \<open>
  C8, as the claim states it, fails: the status 201 is a success and gives the all-null
  triple; the status 200 with an empty list gives no triple but raises \<open>IndexError\<close>; the
  status 200 with a template whose id, URL and name are null gives the all-null triple.
\<close>

theorem fetch_meme_template_not_exactly:
  "fetch_meme_template (mock_catalog_env (Inr (mock_response 201 mock_templates)) (Inl (External ''unused''))) =
     ([HttpGet ''https://api.imgflip.com/get_memes''], Inr (JNull, JNull, JNull))
   \<and> fetch_meme_template
        (mock_catalog_env (Inr (mock_response 200 (JObj [(''data'', JObj [(''memes'', JList [])])])))
           (Inl (External ''unused''))) =
     ([HttpGet ''https://api.imgflip.com/get_memes''], Inl IndexError)
   \<and> fetch_meme_template
        (mock_catalog_env
           (Inr (mock_response 200
              (JObj [(''data'', JObj [(''memes'',
                 JList [JObj [(''id'', JNull), (''url'', JNull), (''name'', JNull)]])])])))
           (Inl (External ''unused''))) =
     ([HttpGet ''https://api.imgflip.com/get_memes''], Inr (JNull, JNull, JNull))"
  by (simp add: fetch_meme_template_def requests_get_def bind_def ret_def raise_def random_choice_def
        randbelow_def mock_defs)

section \<open>The feed\<close>

lemma pool_count:
  assumes "length posts = 50" and "length (filter stickied posts) = 10"
    and "length (filter (\<lambda>p. \<not> stickied p \<and> \<not> Q p) posts) = 20"
  shows "length (filter (\<lambda>p. \<not> stickied p \<and> Q p) (take 50 posts)) = 20"
proof -
  let ?ns = "filter (\<lambda>p. \<not> stickied p) posts"
  have "length (filter stickied posts) + length ?ns = length posts"
    by (rule sum_length_filter_compl)
  with assms have ns: "length ?ns = 40" by simp
  have "length (filter Q ?ns) + length (filter (\<lambda>p. \<not> Q p) ?ns) = length ?ns"
    by (rule sum_length_filter_compl)
  moreover have "filter (\<lambda>p. \<not> Q p) ?ns = filter (\<lambda>p. \<not> stickied p \<and> \<not> Q p) posts"
    by (simp add: conj_commute)
  moreover have "filter Q ?ns = filter (\<lambda>p. \<not> stickied p \<and> Q p) posts"
    by (simp add: conj_commute)
  ultimately have "length (filter (\<lambda>p. \<not> stickied p \<and> Q p) posts) = 20"
    using ns assms(3) by simp
  with assms(1) show ?thesis by simp
qed

text \<open>
  C5, as the code has it. \<open>fetch_meme_from_reddit\<close> returns \<open>None\<close> (and logs the
  error) when reading the feed raises. Otherwise the candidates are the posts among the
  first 50 that are not stickied and whose URL ends in \<open>jpg\<close> or \<open>png\<close> (the three
  letters, with or without a dot before them): with no candidate the result is \<open>None\<close>;
  with candidates it is the URL of the candidate at the index drawn by
  \<open>random.choice\<close>, every candidate is the result for some draw, and the choice is
  uniform: among the draws \<open>0 .. m * n - 1\<close>, for \<open>n\<close> candidates, a URL is returned
  \<open>m\<close> times for each candidate that has it. For a feed of 50 posts with 10 stickied
  ones and 20 others whose URL does not end in \<open>jpg\<close> or \<open>png\<close> there are exactly 20
  candidates.
\<close>

theorem fetch_meme_from_reddit_pool:
  "(hot_listing env ''memes'' = Inl e \<longrightarrow>
      fetch_meme_from_reddit env =
        ([FeedHot ''memes'' 50, LogError ''Error fetching meme from Reddit: '' e], Inr None))
   \<and> (hot_listing env ''memes'' = Inr posts
       \<and> pool = filter (\<lambda>post. \<not> stickied post \<and> py_endswith_any (url post) [''jpg'', ''png''])
                  (take 50 posts) \<longrightarrow>
        (pool = [] \<longrightarrow> fetch_meme_from_reddit env = ([FeedHot ''memes'' 50], Inr None))
      \<and> (pool \<noteq> [] \<longrightarrow>
           fetch_meme_from_reddit env =
             ([FeedHot ''memes'' 50], Inr (Some (url (pool ! randbelow (rnd env) (length pool)))))
           \<and> randbelow (rnd env) (length pool) < length pool)
      \<and> (k < length pool \<longrightarrow>
           snd (fetch_meme_from_reddit (env\<lparr>rnd := k\<rparr>)) = Inr (Some (url (pool ! k))))
      \<and> length (filter (\<lambda>r. snd (fetch_meme_from_reddit (env\<lparr>rnd := r\<rparr>)) = Inr (Some u))
                  [0..<m * length pool])
          = m * length (filter (\<lambda>post. url post = u) pool)
      \<and> (length posts = 50 \<and> length (filter stickied posts) = 10
          \<and> length (filter (\<lambda>post. \<not> stickied post
                 \<and> \<not> py_endswith_any (url post) [''jpg'', ''png'']) posts) = 20 \<longrightarrow>
           length pool = 20))"
proof (intro conjI impI)
  assume "hot_listing env ''memes'' = Inl e"
  then show "fetch_meme_from_reddit env =
        ([FeedHot ''memes'' 50, LogError ''Error fetching meme from Reddit: '' e], Inr None)"
    by (simp add: fetch_reddit_cases)
next
  assume a: "hot_listing env ''memes'' = Inr posts
       \<and> pool = filter (\<lambda>post. \<not> stickied post \<and> py_endswith_any (url post) [''jpg'', ''png''])
                  (take 50 posts)"
  then have h: "hot_listing env ''memes'' = Inr posts"
    and p: "filter (\<lambda>post. \<not> stickied post \<and> py_endswith_any (url post) [''jpg'', ''png''])
                  (take 50 posts) = pool"
    by blast+
  have c: "fetch_meme_from_reddit env' =
      (if pool \<noteq> [] then ([FeedHot ''memes'' 50], Inr (Some (url (pool ! randbelow (rnd env') (length pool)))))
       else ([FeedHot ''memes'' 50], Inr None))"
    if "hot_listing env' ''memes'' = Inr posts" for env'
    using that by (simp only: fetch_reddit_cases sum.case Let_def p)
  have hr: "hot_listing (env\<lparr>rnd := r\<rparr>) ''memes'' = Inr posts" for r
    using h by simp
  {
    assume "pool = []"
    then show "fetch_meme_from_reddit env = ([FeedHot ''memes'' 50], Inr None)"
      by (simp add: c [OF h])
  next
    assume ne: "pool \<noteq> []"
    then show "fetch_meme_from_reddit env =
             ([FeedHot ''memes'' 50], Inr (Some (url (pool ! randbelow (rnd env) (length pool)))))"
      by (simp add: c [OF h])
    from ne show "randbelow (rnd env) (length pool) < length pool"
      by (simp add: randbelow_less)
  next
    assume k: "k < length pool"
    then have "pool \<noteq> []" by auto
    then show "snd (fetch_meme_from_reddit (env\<lparr>rnd := k\<rparr>)) = Inr (Some (url (pool ! k)))"
      using k by (simp add: c [OF hr] randbelow_id)
  next
    show "length (filter (\<lambda>r. snd (fetch_meme_from_reddit (env\<lparr>rnd := r\<rparr>)) = Inr (Some u))
                  [0..<m * length pool])
          = m * length (filter (\<lambda>post. url post = u) pool)"
    proof (cases "pool = []")
      case True
      then show ?thesis by simp
    next
      case False
      then have "snd (fetch_meme_from_reddit (env\<lparr>rnd := r\<rparr>)) = Inr (Some u)
                   \<longleftrightarrow> url (pool ! randbelow r (length pool)) = u" for r
        by (simp add: c [OF hr])
      then show ?thesis
        using draws_uniform [of "\<lambda>post. url post = u" pool m] by simp
    qed
  next
    assume "length posts = 50 \<and> length (filter stickied posts) = 10
          \<and> length (filter (\<lambda>post. \<not> stickied post
                 \<and> \<not> py_endswith_any (url post) [''jpg'', ''png'']) posts) = 20"
    then show "length pool = 20"
      using pool_count [of posts "\<lambda>post. py_endswith_any (url post) [''jpg'', ''png'']"] p by blast
  }
qed

theorem fetch_meme_from_reddit_pool_witness:
  "fetch_meme_from_reddit (mock_feed_env (Inl (External ''forbidden'')) 0) =
     ([FeedHot ''memes'' 50, LogError ''Error fetching meme from Reddit: '' (External ''forbidden'')],
      Inr None)
   \<and> fetch_meme_from_reddit (mock_feed_env (Inr []) 0) = ([FeedHot ''memes'' 50], Inr None)
   \<and> fetch_meme_from_reddit (mock_feed_env (Inr (mock_feed ''https://i.redd.it/a.gif'')) 45) =
       ([FeedHot ''memes'' 50], Inr (Some ''https://i.redd.it/mmmmmm.jpg''))
   \<and> snd (fetch_meme_from_reddit ((mock_feed_env (Inr (mock_feed ''https://i.redd.it/a.gif'')) 45)\<lparr>rnd := 7\<rparr>)) =
       Inr (Some ''https://i.redd.it/mmmmmmmm.jpg'')
   \<and> length (filter (\<lambda>r. snd (fetch_meme_from_reddit
                  ((mock_feed_env (Inr (mock_feed ''https://i.redd.it/a.gif'')) 45)\<lparr>rnd := r\<rparr>))
                = Inr (Some ''https://i.redd.it/mmmmmm.jpg'')) [0..<3 * 20]) = 3
   \<and> length (filter (\<lambda>post. \<not> stickied post \<and> py_endswith_any (url post) [''jpg'', ''png''])
               (take 50 (mock_feed ''https://i.redd.it/a.gif''))) = 20"
proof -
  let ?posts = "mock_feed ''https://i.redd.it/a.gif''"
  let ?pool = "filter (\<lambda>post. \<not> stickied post \<and> py_endswith_any (url post) [''jpg'', ''png''])
                 (take 50 ?posts)"
  let ?none = "filter (\<lambda>post. \<not> stickied post \<and> py_endswith_any (url post) [''jpg'', ''png''])
                 (take 50 [])"
  let ?env = "mock_feed_env (Inr ?posts) 45"
  have h1: "hot_listing (mock_feed_env (Inl (External ''forbidden'')) 0) ''memes'' = Inl (External ''forbidden'')"
    by (simp add: mock_feed_env_def)
  have h2: "hot_listing (mock_feed_env (Inr []) 0) ''memes'' = Inr [] \<and> ?none = ?none \<and> ?none = []"
    by (simp add: mock_feed_env_def)
  have h3: "hot_listing ?env ''memes'' = Inr ?posts \<and> ?pool = ?pool"
    by (simp add: mock_feed_env_def)
  have h4: "?pool \<noteq> []" by code_simp
  have h5: "7 < length ?pool" by code_simp
  have h6: "length ?posts = 50 \<and> length (filter stickied ?posts) = 10
          \<and> length (filter (\<lambda>post. \<not> stickied post
                 \<and> \<not> py_endswith_any (url post) [''jpg'', ''png'']) ?posts) = 20"
    by code_simp
  have v1: "url (?pool ! randbelow (rnd ?env) (length ?pool)) = ''https://i.redd.it/mmmmmm.jpg''"
    by code_simp
  have v2: "url (?pool ! 7) = ''https://i.redd.it/mmmmmmmm.jpg''"
    by code_simp
  have v3: "length (filter (\<lambda>post. url post = ''https://i.redd.it/mmmmmm.jpg'') ?pool) = 1"
    by code_simp
  from fetch_meme_from_reddit_pool [of "mock_feed_env (Inl (External ''forbidden'')) 0" "External ''forbidden''"] h1
  have 1: "fetch_meme_from_reddit (mock_feed_env (Inl (External ''forbidden'')) 0) =
     ([FeedHot ''memes'' 50, LogError ''Error fetching meme from Reddit: '' (External ''forbidden'')],
      Inr None)"
    by blast
  from fetch_meme_from_reddit_pool [of "mock_feed_env (Inr []) 0" _ "[]" ?none] h2
  have 2: "fetch_meme_from_reddit (mock_feed_env (Inr []) 0) = ([FeedHot ''memes'' 50], Inr None)"
    by blast
  from fetch_meme_from_reddit_pool [of ?env _ ?posts ?pool 7 "''https://i.redd.it/mmmmmm.jpg''" 3] h3 h4 h5 h6
  have 3: "fetch_meme_from_reddit ?env =
             ([FeedHot ''memes'' 50], Inr (Some (url (?pool ! randbelow (rnd ?env) (length ?pool)))))
           \<and> snd (fetch_meme_from_reddit (?env\<lparr>rnd := 7\<rparr>)) = Inr (Some (url (?pool ! 7)))
           \<and> length (filter (\<lambda>r. snd (fetch_meme_from_reddit (?env\<lparr>rnd := r\<rparr>))
                        = Inr (Some ''https://i.redd.it/mmmmmm.jpg'')) [0..<3 * length ?pool])
               = 3 * length (filter (\<lambda>post. url post = ''https://i.redd.it/mmmmmm.jpg'') ?pool)
           \<and> length ?pool = 20"
    by blast
  then have len: "length ?pool = 20"
    and cnt: "length (filter (\<lambda>r. snd (fetch_meme_from_reddit (?env\<lparr>rnd := r\<rparr>))
                        = Inr (Some ''https://i.redd.it/mmmmmm.jpg'')) [0..<3 * length ?pool])
               = 3 * length (filter (\<lambda>post. url post = ''https://i.redd.it/mmmmmm.jpg'') ?pool)"
    and sel: "fetch_meme_from_reddit ?env =
             ([FeedHot ''memes'' 50], Inr (Some (url (?pool ! randbelow (rnd ?env) (length ?pool)))))"
    and sel7: "snd (fetch_meme_from_reddit (?env\<lparr>rnd := 7\<rparr>)) = Inr (Some (url (?pool ! 7)))"
    by blast+
  from cnt have 4: "length (filter (\<lambda>r. snd (fetch_meme_from_reddit (?env\<lparr>rnd := r\<rparr>))
                        = Inr (Some ''https://i.redd.it/mmmmmm.jpg'')) [0..<3 * 20]) = 3"
    by (simp only: len v3 mult_1_right)
  from sel have 5: "fetch_meme_from_reddit ?env =
             ([FeedHot ''memes'' 50], Inr (Some ''https://i.redd.it/mmmmmm.jpg''))"
    by (simp only: v1)
  from sel7 have 6: "snd (fetch_meme_from_reddit (?env\<lparr>rnd := 7\<rparr>)) =
             Inr (Some ''https://i.redd.it/mmmmmmmm.jpg'')"
    by (simp only: v2)
  from 1 2 4 5 6 len show ?thesis by blast
qed

text \<open>
  C5, as the claim states it, fails: in this feed of 50 posts, 10 are stickied and 20
  others have no \<open>.jpg\<close> or \<open>.png\<close> suffix, yet there are 21 candidates, and the URL
  returned for the draw 0 ends in \<open>format=png\<close>.
\<close>

theorem fetch_meme_from_reddit_dotless_suffix:
  "length (mock_feed ''https://preview.redd.it/a1?format=png'') = 50
   \<and> length (filter stickied (mock_feed ''https://preview.redd.it/a1?format=png'')) = 10
   \<and> length (filter (\<lambda>post. \<not> stickied post
        \<and> \<not> py_endswith_any (url post) [''.jpg'', ''.png''])
        (mock_feed ''https://preview.redd.it/a1?format=png'')) = 20
   \<and> length (filter (\<lambda>post. \<not> stickied post \<and> py_endswith_any (url post) [''jpg'', ''png''])
               (take 50 (mock_feed ''https://preview.redd.it/a1?format=png''))) = 21
   \<and> fetch_meme_from_reddit (mock_feed_env (Inr (mock_feed ''https://preview.redd.it/a1?format=png'')) 0) =
       ([FeedHot ''memes'' 50], Inr (Some ''https://preview.redd.it/a1?format=png''))"
  by code_simp

section \<open>The local overlay\<close>

text \<open>
  C6. When the image is downloaded with status 200 and opened, the font is loaded and
  the bounding box of the caption is measured, the caption is drawn exactly three times,
  in this order: at \<open>(x - 2, y - 2)\<close> and at \<open>(x + 2, y + 2)\<close> in black and at
  \<open>(x, y)\<close> in white, where \<open>x = (width - text_width) // 2\<close>, \<open>text_width\<close> is the
  width of the bounding box, and \<open>y = height - 100\<close>.
\<close>

theorem overlay_draw_origin:
  "http_get env image_url = Inr response \<and> status_code response = 200
   \<and> image_open env (content response) = Inr (width, height)
   \<and> truetype env ''arial.ttf'' 40 = Inr font
   \<and> textbbox env text = Inr (bbox0, bbox1, bbox2, bbox3)
   \<and> text_width = bbox2 - bbox0
   \<and> x = (width - text_width) div 2
   \<and> y = height - 100 \<longrightarrow>
     filter is_draw (fst (overlay_text_on_image env image_url text)) =
       [DrawText (x - 2, y - 2) text ''black'',
        DrawText (x + 2, y + 2) text ''black'',
        DrawText (x, y) text ''white'']
     \<and> fst (overlay_text_on_image env image_url text) =
         HttpGet image_url #
         [DrawText (x - 2, y - 2) text ''black'',
          DrawText (x + 2, y + 2) text ''black'',
          DrawText (x, y) text ''white'']
         @ (case image_save env ''generated_meme.jpg'' of
              Inl e \<Rightarrow> [LogError ''Error overlaying text on image: '' e]
            | Inr saved \<Rightarrow> [Save ''generated_meme.jpg'', Show, Print Generated_OK])"
  by (simp add: overlay_cases Let_def split: sum.splits)

theorem overlay_draw_origin_witness:
  "filter is_draw (fst (overlay_text_on_image (mock_feed_env (Inr []) 0) ''https://i.redd.it/meme.jpg'' ''hello'')) =
     [DrawText (348, 498) ''hello'' ''black'',
      DrawText (352, 502) ''hello'' ''black'',
      DrawText (350, 500) ''hello'' ''white'']"
proof -
  let ?env = "mock_feed_env (Inr []) 0"
  have h: "http_get ?env ''https://i.redd.it/meme.jpg'' = Inr mock_image \<and> status_code mock_image = 200
   \<and> image_open ?env (content mock_image) = Inr (800, 600)
   \<and> truetype ?env ''arial.ttf'' 40 = Inr ()
   \<and> textbbox ?env ''hello'' = Inr (0, 8, 100, 48)
   \<and> (100::int) = 100 - 0
   \<and> (350::int) = (800 - 100) div 2
   \<and> (500::int) = 600 - 100"
    by (simp add: mock_feed_env_def mock_image_def)
  from overlay_draw_origin [of ?env "''https://i.redd.it/meme.jpg''" mock_image 800 600 "()" "''hello''"
         0 8 100 48 100 350 500] h
  have "filter is_draw (fst (overlay_text_on_image ?env ''https://i.redd.it/meme.jpg'' ''hello'')) =
       [DrawText (350 - 2, 500 - 2) ''hello'' ''black'',
        DrawText (350 + 2, 500 + 2) ''hello'' ''black'',
        DrawText (350, 500) ''hello'' ''white'']"
    by blast
  then show ?thesis by simp
qed

end
